theory Spec2Isabelle
  imports Main "HOL-Library.Word" "HOL-Library.Char_ord" "HOL-Library.List_Lexorder"
begin

unbundle bit_operations_syntax

section \<open>The ASR type tree\<close>

text \<open>
  The ASR types that the verifier (\<^verbatim>\<open>VerifyVisitor\<close>) and the declaration resolver
  (\<^verbatim>\<open>SymbolTableVisitor\<close>) of \<^verbatim>\<open>asr_verify.cpp\<close> build and inspect. The type of
  expressions is a parameter \<open>'e\<close>: a type refers to expressions only in a string
  length and in the bounds of a dimension.
\<close>

datatype string_length_kind = ExpressionLength | AssumedLength | DeferredLength | ImplicitLength

datatype string_physical_type = DescriptorString | CChar

datatype array_physical_type = DescriptorArray | PointerArray | FixedSizeArray | SIMDArray

datatype 'e dimension = Dimension (m_start: "'e option") (m_length: "'e option")

datatype 'e ttype =
    Integer_t int
  | Real_t int
  | Complex_t int
  | Logical_t int
  | String_t int "'e option" string_length_kind string_physical_type
  | Array_t "'e ttype" "'e dimension list" array_physical_type
  | Pointer_t "'e ttype"
  | Allocatable_t "'e ttype"
  | StructType_t "'e ttype list" bool
  | TypeParameter_t string

text \<open>
  Symbol nodes live in an arena and are referred to by address (\<^verbatim>\<open>ASR::symbol_t*\<close>);
  two references are the same symbol exactly when the addresses are equal.
\<close>

type_synonym sym_ref = nat

text \<open>
  Modelled from the spec: the \<^verbatim>\<open>SymbolTable\<close> class is not among the sources. A table
  has its counter, its bindings (\<^verbatim>\<open>std::map\<close>, kept in key order) and its parent;
  \<^verbatim>\<open>get_symbol\<close> is the local lookup and \<^verbatim>\<open>resolve_symbol\<close> walks the parent chain
  and returns the nearest binding.
\<close>

datatype SymbolTable =
  SymbolTable (counter: nat) (get_scope: "(string \<times> sym_ref) list") (parent: "SymbolTable option")

definition get_symbol :: "SymbolTable \<Rightarrow> string \<Rightarrow> sym_ref option" where
  "get_symbol symtab name = map_of (get_scope symtab) name"

fun resolve_symbol :: "SymbolTable \<Rightarrow> string \<Rightarrow> sym_ref option" where
  "resolve_symbol (SymbolTable c sc p) name =
     (case map_of sc name of
        Some s \<Rightarrow> Some s
      | None \<Rightarrow> (case p of None \<Rightarrow> None | Some t \<Rightarrow> resolve_symbol t name))"

text \<open>The expressions the claims are about.\<close>

datatype expr =
    IntegerConstant_t int "expr ttype"
  | Var_t sym_ref
  | StructInstanceMember_t expr sym_ref "expr ttype"

datatype intentType = Local | In | Out | InOut | ReturnVar | Unspecified

datatype storage_typeType = Default | Save | Parameter

datatype accessType = Public | Private

text \<open>
  The symbol variants with the attributes the modelled functions read. Every variant has
  its name (\<^verbatim>\<open>ASRUtils::symbol_name\<close>); \<open>m_module\<close> is the module that owns the table
  the symbol lives in (\<^verbatim>\<open>ASRUtils::get_sym_module\<close>), if any; \<open>m_methods\<close> are the names
  of the StructMethodDeclaration symbols in the table of a Struct.
\<close>

datatype symbol =
    Function_t (m_name: string) (m_module: "sym_ref option") (m_return_var: "expr option")
      (m_access: accessType)
  | GenericProcedure_t (m_name: string) (m_module: "sym_ref option") (m_procs: "sym_ref list")
      (m_access: accessType)
  | CustomOperator_t (m_name: string) (m_module: "sym_ref option") (m_procs: "sym_ref list")
      (m_access: accessType)
  | ExternalSymbol_t (m_name: string) (m_module: "sym_ref option") (m_external: "sym_ref option")
      (m_module_name: string) (m_original_name: string) (m_access: accessType)
  | Variable_t (m_name: string) (m_module: "sym_ref option") (m_type: "expr ttype")
      (m_intent: intentType) (m_storage: storage_typeType) (m_access: accessType)
  | Struct_t (m_name: string) (m_module: "sym_ref option") (m_methods: "string list")
      (m_access: accessType)
  | Union_t (m_name: string) (m_module: "sym_ref option") (m_access: accessType)
  | Enum_t (m_name: string) (m_module: "sym_ref option") (m_access: accessType)
  | Requirement_t (m_name: string) (m_module: "sym_ref option")
  | Template_t (m_name: string) (m_module: "sym_ref option")
  | Block_t (m_name: string) (m_module: "sym_ref option")
  | Module_t (m_name: string) (m_module: "sym_ref option") (m_symtab: SymbolTable)

type_synonym arena = "sym_ref \<rightharpoonup> symbol"

text \<open>
  Modelled from the spec: \<^verbatim>\<open>ASRUtils::symbol_get_past_external\<close> (libasr's utilities
  are not among the sources) follows an ExternalSymbol exactly one step; the result is
  \<^verbatim>\<open>nullptr\<close> for an ExternalSymbol that is not linked yet.
\<close>

definition symbol_get_past_external :: "arena \<Rightarrow> sym_ref \<Rightarrow> sym_ref option" where
  "symbol_get_past_external al f =
     (case al f of
        Some (ExternalSymbol_t _ _ ext _ _ _) \<Rightarrow> ext
      | _ \<Rightarrow> Some f)"

section \<open>Resolver: the implicit dictionary\<close>

text \<open>
  \<^verbatim>\<open>std::map<std::string, ASR::ttype_t*>\<close>: a key is absent (\<open>None\<close>), bound to
  \<^verbatim>\<open>nullptr\<close> (\<open>Some None\<close>) or bound to a type (\<open>Some (Some t)\<close>).
\<close>

type_synonym 'e implicit_dictionary = "string \<rightharpoonup> 'e ttype option"

text \<open>
  How the resolver fails: \<^verbatim>\<open>SemanticAbort\<close> after it has recorded a diagnostic (the
  message), an \<^verbatim>\<open>LCompilersException\<close>, or a failed \<^verbatim>\<open>LCOMPILERS_ASSERT\<close>.
  \<open>OutOfFuel\<close> is no error of the resolver: a function of the model that is given
  fuel returns it when the fuel does not suffice.
\<close>

datatype semantic_error =
    SemanticAbort string
  | LCompilersException string
  | AssertFailed
  | OutOfFuel

text \<open>
  \<^verbatim>\<open>for (char ch = a; ch <= b; ch++)\<close>, for the 7-bit characters the resolver
  iterates over (letters).
\<close>

definition char_range :: "char \<Rightarrow> char \<Rightarrow> char list" where
  "char_range a b = map char_of [of_char a ..< Suc (of_char b) :: nat]"

definition populate_implicit_dictionary ::
  "int \<Rightarrow> 'e implicit_dictionary \<Rightarrow> 'e implicit_dictionary" where
  "populate_implicit_dictionary default_integer_kind implicit_dictionary =
     (let d1 = fold (\<lambda>ch d. d([ch] \<mapsto> Some (Integer_t default_integer_kind)))
                 (char_range CHR ''i'' CHR ''n'') implicit_dictionary;
          d2 = fold (\<lambda>ch d. d([ch] \<mapsto> Some (Real_t 4))) (char_range CHR ''o'' CHR ''z'') d1;
          d3 = fold (\<lambda>ch d. d([ch] \<mapsto> Some (Real_t 4))) (char_range CHR ''a'' CHR ''h'') d2
      in d3)"

text \<open>
  The syntax tree of implicit statements. \<open>'k\<close> is the syntactic expression of a kind
  item; \<open>a_m_kind\<close> is the array \<^verbatim>\<open>m_kind\<close> of \<^verbatim>\<open>n_kind\<close> items (empty for
  \<^verbatim>\<open>nullptr\<close>).
\<close>

datatype decl_typeType =
    TypeClass | TypeCharacter | TypeComplex | TypeDoublePrecision | TypeDoubleComplex
  | TypeInteger | TypeLogical | TypeProcedure | TypeReal | TypeType

datatype 'k AttrType = AttrType (a_m_type: decl_typeType) (a_m_kind: "'k list")

datatype LetterSpec = LetterSpec (l_m_start: "char option") (l_m_end: char)

datatype 'k ImplicitSpec = ImplicitSpec (s_m_type: "'k AttrType") (s_m_specs: "LetterSpec list")

datatype 'k implicit_statement = ImplicitNone | Implicit "'k ImplicitSpec list"

text \<open>
  Modelled from the spec: \<^verbatim>\<open>to_lower\<close> (libasr's string utilities are not among the
  sources); names are canonicalised to lowercase ASCII.
\<close>

definition to_lower_char :: "char \<Rightarrow> char" where
  "to_lower_char c =
     (if CHR ''A'' \<le> c \<and> c \<le> CHR ''Z'' then char_of (of_char c + 32 :: nat) else c)"

definition to_lower :: "string \<Rightarrow> string" where
  "to_lower s = map to_lower_char s"

text \<open>
  What the resolver's collaborators contribute to an implicit statement:
  \<^verbatim>\<open>visit_expr\<close> on the kind item followed by \<^verbatim>\<open>ASRUtils::extract_len\<close> or
  \<^verbatim>\<open>ASRUtils::extract_kind\<close> (none of them among the sources) either aborts or
  yields an integer.
\<close>

record 'k implicit_env =
  default_integer_kind :: int
  extract_len :: "'k \<Rightarrow> semantic_error + int"
  extract_kind :: "'k \<Rightarrow> semantic_error + int"

text \<open>The kind item of one \<^verbatim>\<open>ImplicitSpec\<close>: \<open>(i_kind, a_kind, a_len)\<close>.\<close>

definition implicit_kinds ::
  "'k implicit_env \<Rightarrow> 'k AttrType \<Rightarrow> semantic_error + (int \<times> int \<times> int)" where
  "implicit_kinds env attr_type =
     (let i_kind = default_integer_kind env; a_kind = 4; a_len = - 10 in
      case a_m_kind attr_type of
        [] \<Rightarrow> Inr (i_kind, a_kind, a_len)
      | [k] \<Rightarrow>
          (if a_m_type attr_type = TypeCharacter
           then (case extract_len env k of
                   Inl e \<Rightarrow> Inl e
                 | Inr l \<Rightarrow> Inr (i_kind, a_kind, l))
           else (case extract_kind env k of
                   Inl e \<Rightarrow> Inl e
                 | Inr v \<Rightarrow> Inr (v, v, a_len)))
      | _ \<Rightarrow> Inl (SemanticAbort ''Only one kind item supported for now''))"

definition implicit_type ::
  "'k implicit_env \<Rightarrow> decl_typeType \<Rightarrow> int \<times> int \<times> int \<Rightarrow> semantic_error + expr ttype" where
  "implicit_type env ast_type kinds =
     (case kinds of (i_kind, a_kind, a_len) \<Rightarrow>
        (case ast_type of
           TypeInteger \<Rightarrow> Inr (Integer_t i_kind)
         | TypeReal \<Rightarrow> Inr (Real_t a_kind)
         | TypeDoublePrecision \<Rightarrow> Inr (Real_t 8)
         | TypeComplex \<Rightarrow> Inr (Complex_t a_kind)
         | TypeLogical \<Rightarrow> Inr (Logical_t (default_integer_kind env))
         | TypeCharacter \<Rightarrow>
             Inr (String_t 1 (Some (IntegerConstant_t a_len (Integer_t 4)))
                    ExpressionLength DescriptorString)
         | _ \<Rightarrow> Inl (SemanticAbort ''Return type not supported'')))"

definition apply_letter_spec ::
  "expr ttype \<Rightarrow> LetterSpec \<Rightarrow> expr implicit_dictionary \<Rightarrow> expr implicit_dictionary" where
  "apply_letter_spec type letter_spec d =
     (case l_m_start letter_spec of
        None \<Rightarrow> d(to_lower [l_m_end letter_spec] \<mapsto> Some type)
      | Some start \<Rightarrow>
          fold (\<lambda>ch m. m(to_lower [ch] \<mapsto> Some type))
            (char_range start (l_m_end letter_spec)) d)"

definition process_implicit_spec ::
  "'k implicit_env \<Rightarrow> 'k ImplicitSpec \<Rightarrow> expr implicit_dictionary
     \<Rightarrow> semantic_error + expr implicit_dictionary" where
  "process_implicit_spec env spec d =
     (case implicit_kinds env (s_m_type spec) of
        Inl e \<Rightarrow> Inl e
      | Inr kinds \<Rightarrow>
          (case implicit_type env (a_m_type (s_m_type spec)) kinds of
             Inl e \<Rightarrow> Inl e
           | Inr type \<Rightarrow> Inr (fold (apply_letter_spec type) (s_m_specs spec) d)))"

fun process_implicit_specs ::
  "'k implicit_env \<Rightarrow> 'k ImplicitSpec list \<Rightarrow> expr implicit_dictionary
     \<Rightarrow> semantic_error + expr implicit_dictionary" where
  "process_implicit_specs env [] d = Inr d"
| "process_implicit_specs env (spec # specs) d =
     (case process_implicit_spec env spec d of
        Inl e \<Rightarrow> Inl e
      | Inr d' \<Rightarrow> process_implicit_specs env specs d')"

text \<open>
  The loop over \<^verbatim>\<open>x.m_implicit\<close>; \<open>n_implicit\<close> is the length of the whole list.
\<close>

fun implicit_statements_loop ::
  "'k implicit_env \<Rightarrow> nat \<Rightarrow> 'k implicit_statement list \<Rightarrow> expr implicit_dictionary
     \<Rightarrow> semantic_error + expr implicit_dictionary" where
  "implicit_statements_loop env n_implicit [] d = Inr d"
| "implicit_statements_loop env n_implicit (ImplicitNone # rest) d =
     (if n_implicit \<noteq> 1
      then Inl (SemanticAbort
             ''No other implicit statement is allowed when 'implicit none' is used'')
      else implicit_statements_loop env n_implicit rest (\<lambda>k. map_option (\<lambda>_. None) (d k)))"
| "implicit_statements_loop env n_implicit (Implicit specs # rest) d =
     (case process_implicit_specs env specs d of
        Inl e \<Rightarrow> Inl e
      | Inr d' \<Rightarrow> implicit_statements_loop env n_implicit rest d')"

definition process_implicit_statements ::
  "'k implicit_env \<Rightarrow> expr implicit_dictionary list \<Rightarrow> bool \<Rightarrow> 'k implicit_statement list
     \<Rightarrow> expr implicit_dictionary \<Rightarrow> semantic_error + expr implicit_dictionary" where
  "process_implicit_statements env implicit_stack is_interface m_implicit d =
     (if implicit_stack \<noteq> [] \<and> m_implicit = [] \<and> \<not> is_interface
      then Inr (last implicit_stack)
      else implicit_statements_loop env (length m_implicit) m_implicit d)"

text \<open>
  The head of \<^verbatim>\<open>visit_Program\<close>, \<^verbatim>\<open>visit_Subroutine\<close> and \<^verbatim>\<open>visit_Function\<close>:
  the scope's implicit statements under the option \<^verbatim>\<open>implicit_typing\<close>.
\<close>

fun implicit_typing_disabled_loop ::
  "'k implicit_statement list \<Rightarrow> semantic_error + unit" where
  "implicit_typing_disabled_loop [] = Inr ()"
| "implicit_typing_disabled_loop (ImplicitNone # rest) = implicit_typing_disabled_loop rest"
| "implicit_typing_disabled_loop (Implicit specs # rest) =
     Inl (SemanticAbort
       ''Implicit typing is not allowed, enable it by using --implicit-typing '')"

definition enter_scope_implicit ::
  "bool \<Rightarrow> 'k implicit_env \<Rightarrow> expr implicit_dictionary list \<Rightarrow> bool
     \<Rightarrow> 'k implicit_statement list \<Rightarrow> expr implicit_dictionary
     \<Rightarrow> semantic_error + expr implicit_dictionary" where
  "enter_scope_implicit implicit_typing env implicit_stack is_interface m_implicit d =
     (if implicit_typing
      then process_implicit_statements env implicit_stack is_interface m_implicit
             (populate_implicit_dictionary (default_integer_kind env) d)
      else (case implicit_typing_disabled_loop m_implicit of
              Inl e \<Rightarrow> Inl e
            | Inr _ \<Rightarrow> Inr d))"

text \<open>An environment for concrete runs: every kind item evaluates without error.\<close>

definition plain_env :: "unit implicit_env" where
  "plain_env =
     \<lparr>default_integer_kind = 4, extract_len = (\<lambda>_. Inr 1), extract_kind = (\<lambda>_. Inr 4)\<rparr>"

section \<open>Verifier\<close>

text \<open>
  \<^verbatim>\<open>require(cond, error_msg)\<close> records the diagnostic and unwinds with
  \<^verbatim>\<open>VerifyAbort\<close>; \<^verbatim>\<open>asr_verify\<close> then returns \<^verbatim>\<open>false\<close>. A check that passes
  returns \<open>Inr ()\<close>. Messages follow the source's text, without the quotation marks
  and the values the source puts into them.
\<close>

datatype verify_error = VerifyAbort string

definition require :: "bool \<Rightarrow> string \<Rightarrow> verify_error + unit" where
  "require cond error_msg = (if cond then Inr () else Inl (VerifyAbort error_msg))"

text \<open>Sequencing of two checks: the second runs only when the first passed.\<close>

definition and_then :: "verify_error + unit \<Rightarrow> verify_error + unit \<Rightarrow> verify_error + unit" where
  "and_then r k = (case r of Inl e \<Rightarrow> Inl e | Inr _ \<Rightarrow> k)"

text \<open>\<^verbatim>\<open>for (...) require(P(x), msg(x))\<close>\<close>

fun require_each :: "('a \<Rightarrow> bool) \<Rightarrow> ('a \<Rightarrow> string) \<Rightarrow> 'a list \<Rightarrow> verify_error + unit" where
  "require_each P msg [] = Inr ()"
| "require_each P msg (x # xs) = and_then (require (P x) (msg x)) (require_each P msg xs)"

text \<open>\<^verbatim>\<open>for (...) visit(x)\<close>\<close>

fun visit_each :: "('a \<Rightarrow> verify_error + unit) \<Rightarrow> 'a list \<Rightarrow> verify_error + unit" where
  "visit_each visit [] = Inr ()"
| "visit_each visit (x # xs) = and_then (visit x) (visit_each visit xs)"

subsection \<open>Dependencies of a Function\<close>

fun verify_unique_dependencies_loop ::
  "string list \<Rightarrow> string \<Rightarrow> string set \<Rightarrow> verify_error + unit" where
  "verify_unique_dependencies_loop [] name dependencies_set = Inr ()"
| "verify_unique_dependencies_loop (found_dep # deps) name dependencies_set =
     and_then
       (require (found_dep \<notin> dependencies_set)
          (''Symbol '' @ found_dep @ '' is duplicated in the dependency list of '' @ name))
       (verify_unique_dependencies_loop deps name (insert found_dep dependencies_set))"

definition verify_unique_dependencies :: "string list \<Rightarrow> string \<Rightarrow> verify_error + unit" where
  "verify_unique_dependencies m_dependencies name =
     verify_unique_dependencies_loop m_dependencies name {}"

text \<open>Modelled from the spec: \<^verbatim>\<open>ASRUtils::present\<close>, membership in the stored list.\<close>

definition present :: "'a list \<Rightarrow> 'a \<Rightarrow> bool" where
  "present xs x = (x \<in> set xs)"

text \<open>
  The dependency checks of \<^verbatim>\<open>visit_Function\<close>, which run after the walk of the
  function's table, arguments and body: \<open>x_parent_symtab\<close> is \<^verbatim>\<open>x.m_symtab->parent\<close>
  and \<open>function_dependencies\<close> is the list the walk has accumulated.
\<close>

definition visit_Function_dependencies ::
  "SymbolTable \<Rightarrow> string \<Rightarrow> string list \<Rightarrow> string list \<Rightarrow> verify_error + unit" where
  "visit_Function_dependencies x_parent_symtab x_m_name m_dependencies function_dependencies =
     and_then (verify_unique_dependencies m_dependencies x_m_name)
    (and_then
       (require_each (\<lambda>found_dep. resolve_symbol x_parent_symtab found_dep \<noteq> None)
          (\<lambda>found_dep. ''Dependency '' @ found_dep @ '' is inside symbol table '' @ x_m_name)
          m_dependencies)
    (and_then
       (require_each (\<lambda>found_dep. found_dep \<in> set function_dependencies)
          (\<lambda>found_dep. ''Function '' @ x_m_name @ '' doesn't depend on '' @ found_dep @
             '' but is found in its dependency list.'')
          m_dependencies)
       (require_each (\<lambda>found_dep. present m_dependencies found_dep)
          (\<lambda>found_dep. ''Function '' @ x_m_name @ '' depends on '' @ found_dep @
             '' but isn't found in its dependency list.'')
          function_dependencies)))"

subsection \<open>Alignment of a Struct\<close>

text \<open>
  Modelled from the spec: \<^verbatim>\<open>ASRUtils::expr_value\<close> and \<^verbatim>\<open>ASRUtils::extract_value\<close>
  are not among the sources. A constant is its own compile-time value, and an integer
  constant yields its \<^verbatim>\<open>int64_t\<close>; the other expressions of the model carry no value.
\<close>

fun expr_value :: "expr \<Rightarrow> expr option" where
  "expr_value (IntegerConstant_t n t) = Some (IntegerConstant_t n t)"
| "expr_value _ = None"

fun extract_value :: "expr \<Rightarrow> 64 word option" where
  "extract_value (IntegerConstant_t n t) = Some (word_of_int n)"
| "extract_value _ = None"

text \<open>
  \<^verbatim>\<open>visit_Struct\<close> after \<^verbatim>\<open>visit_UserDefinedType(x)\<close>, whose outcome is
  \<open>user_defined_type\<close>. \<open>alignment_int\<close> is an \<^verbatim>\<open>int64_t\<close>.
\<close>

definition visit_Struct :: "verify_error + unit \<Rightarrow> expr option \<Rightarrow> verify_error + unit" where
  "visit_Struct user_defined_type x_m_alignment =
     and_then user_defined_type
       (case x_m_alignment of
          None \<Rightarrow> Inr ()
        | Some alignment \<Rightarrow>
            (case expr_value alignment of
               None \<Rightarrow> Inl (VerifyAbort ''Alignment should always evaluate to a constant expressions.'')
             | Some aligned_expr_value \<Rightarrow>
                 (case extract_value aligned_expr_value of
                    None \<Rightarrow>
                      Inl (VerifyAbort ''Alignment should always evaluate to a constant expressions.'')
                  | Some alignment_int \<Rightarrow>
                      require (alignment_int \<noteq> 0 \<and> alignment_int AND (alignment_int - 1) = 0)
                        ''Alignment is not a positive power of 2.'')))"

subsection \<open>Type shapes\<close>

text \<open>\<^verbatim>\<open>ASR::is_a<T>(*t)\<close> for the wrappers and the scalars the checks ask about.\<close>

fun is_Allocatable_t :: "'e ttype \<Rightarrow> bool" where
  "is_Allocatable_t (Allocatable_t _) = True"
| "is_Allocatable_t _ = False"

fun is_Pointer_t :: "'e ttype \<Rightarrow> bool" where
  "is_Pointer_t (Pointer_t _) = True"
| "is_Pointer_t _ = False"

fun is_Array_t :: "'e ttype \<Rightarrow> bool" where
  "is_Array_t (Array_t _ _ _) = True"
| "is_Array_t _ = False"

fun is_String_t :: "'e ttype \<Rightarrow> bool" where
  "is_String_t (String_t _ _ _ _) = True"
| "is_String_t _ = False"

fun is_Integer_t :: "'e ttype \<Rightarrow> bool" where
  "is_Integer_t (Integer_t _) = True"
| "is_Integer_t _ = False"

text \<open>
  Modelled from the spec: the helpers of \<^verbatim>\<open>ASRUtils\<close> that strip one wrapper
  (\<^verbatim>\<open>type_get_past_pointer\<close>, \<^verbatim>\<open>type_get_past_allocatable\<close>,
  \<^verbatim>\<open>type_get_past_array\<close>), ask for the scalar behind the wrappers
  (\<^verbatim>\<open>is_character\<close>, \<^verbatim>\<open>is_integer\<close>) and return the dimensions of the array behind
  pointers and allocatables (\<^verbatim>\<open>extract_dimensions_from_ttype\<close>) are not among the
  sources.
\<close>

fun type_get_past_pointer :: "'e ttype \<Rightarrow> 'e ttype" where
  "type_get_past_pointer (Pointer_t t) = t"
| "type_get_past_pointer t = t"

fun type_get_past_allocatable :: "'e ttype \<Rightarrow> 'e ttype" where
  "type_get_past_allocatable (Allocatable_t t) = t"
| "type_get_past_allocatable t = t"

fun type_get_past_array :: "'e ttype \<Rightarrow> 'e ttype" where
  "type_get_past_array (Array_t t _ _) = t"
| "type_get_past_array t = t"

definition is_character :: "'e ttype \<Rightarrow> bool" where
  "is_character t =
     is_String_t (type_get_past_array (type_get_past_allocatable (type_get_past_pointer t)))"

definition is_integer :: "'e ttype \<Rightarrow> bool" where
  "is_integer t =
     is_Integer_t (type_get_past_array (type_get_past_allocatable (type_get_past_pointer t)))"

fun extract_dimensions_from_ttype :: "'e ttype \<Rightarrow> 'e dimension list" where
  "extract_dimensions_from_ttype (Array_t _ dims _) = dims"
| "extract_dimensions_from_ttype (Pointer_t t) = extract_dimensions_from_ttype t"
| "extract_dimensions_from_ttype (Allocatable_t t) = extract_dimensions_from_ttype t"
| "extract_dimensions_from_ttype _ = []"

text \<open>
  What the type visitors take from code that is not among the sources:
  \<^verbatim>\<open>check_external\<close> is the mode of the verifier; \<open>env_expr_type\<close> is
  \<^verbatim>\<open>ASRUtils::expr_type\<close>; \<open>constant_length e\<close> is the integer
  \<^verbatim>\<open>ASRUtils::is_value_constant(e, len)\<close> leaves in \<^verbatim>\<open>len\<close> when \<open>e\<close> is a
  compile-time constant; \<open>walk_expr\<close> is the outcome of \<^verbatim>\<open>visit_expr\<close> (the walker
  \<^verbatim>\<open>BaseWalkVisitor\<close>); \<open>in_StringPhysicalCast\<close> says whether \<^verbatim>\<open>current_expr\<close> is a
  \<^verbatim>\<open>StringPhysicalCast\<close>.
\<close>

record 'e verify_env =
  check_external :: bool
  env_expr_type :: "'e \<Rightarrow> 'e ttype"
  constant_length :: "'e \<Rightarrow> int option"
  walk_expr :: "'e \<Rightarrow> verify_error + unit"
  in_StringPhysicalCast :: bool

definition visit_dimension :: "'e verify_env \<Rightarrow> 'e dimension \<Rightarrow> verify_error + unit" where
  "visit_dimension env x =
     and_then
       (case m_start x of
          None \<Rightarrow> Inr ()
        | Some start \<Rightarrow>
            and_then
              (if check_external env
               then require (is_integer (env_expr_type env start))
                      ''Start dimension must be a signed integer''
               else Inr ())
              (walk_expr env start))
       (case m_length x of
          None \<Rightarrow> Inr ()
        | Some len \<Rightarrow>
            and_then
              (if check_external env
               then require (is_integer (env_expr_type env len))
                      ''Length dimension must be a signed integer''
               else Inr ())
              (walk_expr env len))"

text \<open>
  \<^verbatim>\<open>visit_String\<close>. Both physical types of the model are among those the source
  accepts, so its \<^verbatim>\<open>LCompilersException\<close> for an unknown physical type has no
  counterpart.
\<close>

definition visit_String ::
  "'e verify_env \<Rightarrow> 'e option \<Rightarrow> string_length_kind \<Rightarrow> string_physical_type
     \<Rightarrow> verify_error + unit" where
  "visit_String env x_m_len x_m_len_kind x_m_physical_type =
     and_then
       (case x_m_len of
          None \<Rightarrow> Inr ()
        | Some len \<Rightarrow>
            require (is_Integer_t (env_expr_type env len))
              ''String length must be of type INTEGER'')
    (and_then
       (case x_m_len of
          None \<Rightarrow> Inr ()
        | Some len \<Rightarrow>
            (case constant_length env len of
               None \<Rightarrow> Inr ()
             | Some n \<Rightarrow> require (n \<ge> 0) ''String length must be length >= 0''))
    (and_then
       (if x_m_len \<noteq> None
        then require (x_m_len_kind = ExpressionLength)
               ''String with existing length must have length kind of ExpressionLength.''
        else require (x_m_len_kind = AssumedLength \<or> x_m_len_kind = DeferredLength \<or>
                      x_m_len_kind = ImplicitLength)
               ''String with non-existing length must have length kind of AssumedLength OR DeferredLength OR ImplicitLength.'')
    (and_then
       (if x_m_len_kind = ImplicitLength
        then require (in_StringPhysicalCast env)
               ''Implicit length kind must appear in StringPhysicalCast expression.''
        else Inr ())
       (case x_m_len of None \<Rightarrow> Inr () | Some len \<Rightarrow> walk_expr env len))))"

lemma visit_each_cong [fundef_cong]:
  "xs = ys \<Longrightarrow> (\<And>x. x \<in> set ys \<Longrightarrow> f x = g x) \<Longrightarrow> visit_each f xs = visit_each g ys"
  by (induction ys arbitrary: xs) auto

text \<open>
  \<^verbatim>\<open>visit_ttype\<close>: \<^verbatim>\<open>visit_Array\<close>, \<^verbatim>\<open>visit_Pointer\<close>, \<^verbatim>\<open>visit_Allocatable\<close>,
  \<^verbatim>\<open>visit_String\<close> and \<^verbatim>\<open>visit_StructType\<close> of the verifier; the walker's visits of the
  other types find nothing to check.
\<close>

fun visit_ttype :: "'e verify_env \<Rightarrow> 'e ttype \<Rightarrow> verify_error + unit" where
  "visit_ttype env (Array_t x_m_type x_m_dims x_m_physical_type) =
     and_then (require (\<not> is_Allocatable_t x_m_type) ''Allocatable cannot be inside array'')
    (and_then (visit_ttype env x_m_type)
    (and_then (require (length x_m_dims \<noteq> 0) ''Array type cannot have 0 dimensions.'')
    (and_then (require (\<not> is_Array_t x_m_type) ''Array type cannot be nested.'')
    (and_then
       (if is_character x_m_type
        then require (x_m_physical_type \<noteq> FixedSizeArray)
               ''Array of strings' physical type shouldn't be FixedSizeArray''
        else Inr ())
       (visit_each (visit_dimension env) x_m_dims)))))"
| "visit_ttype env (Pointer_t x_m_type) =
     and_then (require (\<not> is_Allocatable_t x_m_type) ''Pointer type conflicts with Allocatable type'')
    (and_then
       (case x_m_type of
          Array_t _ array_t_m_dims _ \<Rightarrow>
            require_each (\<lambda>d. m_start d = None \<and> m_length d = None)
              (\<lambda>_. ''Array type in pointer must have deferred shape'') array_t_m_dims
        | _ \<Rightarrow> Inr ())
       (visit_ttype env x_m_type))"
| "visit_ttype env (Allocatable_t x_m_type) =
     and_then
       (require (\<not> is_Pointer_t x_m_type \<and> \<not> is_Allocatable_t x_m_type)
          ''Allocatable type conflicts with Pointer type'')
    (and_then
       (require_each (\<lambda>d. m_length d = None)
          (\<lambda>_. ''Length of allocatable should be deferred (empty).'')
          (extract_dimensions_from_ttype x_m_type))
       (visit_ttype env x_m_type))"
| "visit_ttype env (String_t kind x_m_len x_m_len_kind x_m_physical_type) =
     visit_String env x_m_len x_m_len_kind x_m_physical_type"
| "visit_ttype env (StructType_t x_m_data_member_types is_cstruct) =
     visit_each (visit_ttype env) x_m_data_member_types"
| "visit_ttype env _ = Inr ()"




text \<open>An environment for concrete runs: post-link mode, every expression is an integer
  that passes its walk.\<close>

definition plain_verify_env :: "expr verify_env" where
  "plain_verify_env =
     \<lparr>check_external = True, env_expr_type = (\<lambda>_. Integer_t 4), constant_length = (\<lambda>_. None),
      walk_expr = (\<lambda>_. Inr ()), in_StringPhysicalCast = False\<rparr>"

subsection \<open>Assignment\<close>




definition symbol_name :: "arena \<Rightarrow> sym_ref \<Rightarrow> string" where
  "symbol_name al f = (case al f of Some s \<Rightarrow> m_name s | None \<Rightarrow> [])"






section \<open>Resolver: entry statements\<close>

text \<open>
  \<^verbatim>\<open>std::map<std::string, V>\<close> as an association list kept in key order, the order in
  which the resolver iterates over it. \<open>map_set\<close> is \<^verbatim>\<open>m[k] = v\<close>; \<open>map_get m k d\<close> is
  the value \<^verbatim>\<open>m[k]\<close> reads, \<open>d\<close> being the value-initialised \<open>V\<close> of a missing key.
\<close>

fun map_set :: "string \<Rightarrow> 'v \<Rightarrow> (string \<times> 'v) list \<Rightarrow> (string \<times> 'v) list" where
  "map_set k v [] = [(k, v)]"
| "map_set k v ((k', v') # m) =
     (if k = k' then (k, v) # m
      else if k < k' then (k, v) # (k', v') # m
      else (k', v') # map_set k v m)"

definition map_get :: "(string \<times> 'v) list \<Rightarrow> string \<Rightarrow> 'v \<Rightarrow> 'v" where
  "map_get m k d = (case map_of m k of Some v \<Rightarrow> v | None \<Rightarrow> d)"

text \<open>
  The syntax the entry rewrite reads: an argument is its name (\<^verbatim>\<open>m_arg\<close>, \<^verbatim>\<open>nullptr\<close>
  for an alternate return), a statement of the body is an \<^verbatim>\<open>ENTRY\<close> or something
  else, a subroutine has a name, formal arguments and a body.
\<close>

type_synonym arg_t = "string option"

datatype ast_stmt = Entry_t string "arg_t list" | Other_stmt nat

record Subroutine_t =
  sub_m_name :: string
  sub_m_args :: "arg_t list"
  sub_m_body :: "ast_stmt list"

text \<open>
  The Function symbol \<^verbatim>\<open>make_Function_t_util\<close> builds, as far as the rewrite
  determines it: its name and the names of the variables its formal arguments refer to.
\<close>

datatype emitted_function = Function_symbol (fn_name: string) (fn_args: "string list")

text \<open>
  The resolver's state the rewrite touches: the three entry tables and the bindings of
  the enclosing scope (\<^verbatim>\<open>parent_scope\<close>).
\<close>

record entry_state =
  entry_functions :: "(string \<times> (string \<times> ast_stmt list) list) list"
  entry_function_args :: "(string \<times> arg_t list) list"
  entry_function_arguments_mapping :: "(string \<times> nat list) list"
  parent_scope :: "(string \<times> emitted_function) list"

fun subroutine_contains_entry_function_loop ::
  "string \<Rightarrow> ast_stmt list \<Rightarrow> bool \<Rightarrow> entry_state \<Rightarrow> bool \<times> entry_state" where
  "subroutine_contains_entry_function_loop subroutine_name [] contains_entry_function st =
     (contains_entry_function, st)"
| "subroutine_contains_entry_function_loop subroutine_name (Entry_t entry_m_name entry_m_args # body)
     contains_entry_function st =
     (let entry_name = to_lower entry_m_name;
          st1 = st\<lparr>entry_functions :=
                    map_set subroutine_name
                      (map_set entry_name [] (map_get (entry_functions st) subroutine_name []))
                      (entry_functions st)\<rparr>;
          st2 = st1\<lparr>entry_function_args :=
                     map_set entry_name
                       (map_get (entry_function_args st1) entry_name [] @ entry_m_args)
                       (entry_function_args st1)\<rparr>
      in subroutine_contains_entry_function_loop subroutine_name body True st2)"
| "subroutine_contains_entry_function_loop subroutine_name (Other_stmt n # body)
     contains_entry_function st =
     (if contains_entry_function
      then subroutine_contains_entry_function_loop subroutine_name body contains_entry_function
             (st\<lparr>entry_functions :=
                   map_set subroutine_name
                     (map (\<lambda>it. (fst it, snd it @ [Other_stmt n]))
                        (map_get (entry_functions st) subroutine_name []))
                     (entry_functions st)\<rparr>)
      else subroutine_contains_entry_function_loop subroutine_name body contains_entry_function st)"

definition subroutine_contains_entry_function ::
  "string \<Rightarrow> ast_stmt list \<Rightarrow> entry_state \<Rightarrow> bool \<times> entry_state" where
  "subroutine_contains_entry_function subroutine_name body st =
     subroutine_contains_entry_function_loop subroutine_name body False st"

text \<open>
  \<^verbatim>\<open>std::string(arg.m_arg)\<close>; the callers have refused a \<^verbatim>\<open>nullptr\<close> before.
\<close>

definition arg_name :: "arg_t \<Rightarrow> string" where
  "arg_name a = (case a of Some n \<Rightarrow> n | None \<Rightarrow> [])"

text \<open>\<^verbatim>\<open>std::find\<close> and \<^verbatim>\<open>std::distance\<close>: the index of the first occurrence.\<close>

fun index_of :: "'a list \<Rightarrow> 'a \<Rightarrow> nat option" where
  "index_of [] y = None"
| "index_of (x # xs) y = (if x = y then Some 0 else map_option Suc (index_of xs y))"

text \<open>
  One pass of \<^verbatim>\<open>entry_function_arguments_mapping[name].push_back(index)\<close> over the
  arguments of one entry.
\<close>

fun push_indices ::
  "string list \<Rightarrow> string \<Rightarrow> arg_t list \<Rightarrow> (string \<times> nat list) list \<Rightarrow> (string \<times> nat list) list" where
  "push_indices arg_names_unique name [] mapping = mapping"
| "push_indices arg_names_unique name (arg # args) mapping =
     push_indices arg_names_unique name args
       (case index_of arg_names_unique (arg_name arg) of
          None \<Rightarrow> mapping
        | Some index \<Rightarrow> map_set name (map_get mapping name [] @ [index]) mapping)"

definition perform_argument_mapping ::
  "arg_t list \<Rightarrow> string \<Rightarrow> entry_state \<Rightarrow> arg_t list \<times> entry_state" where
  "perform_argument_mapping x_m_args sym_name st =
     (let entries = map_get (entry_functions st) sym_name [];
          arg_names =
            map arg_name x_m_args @
            concat (map (\<lambda>it. map arg_name (map_get (entry_function_args st) (fst it) [])) entries);
          arg_names_unique = ''entry__lcompilers'' # sort (remdups arg_names);
          mapping1 =
            push_indices arg_names_unique sym_name x_m_args (entry_function_arguments_mapping st);
          mapping2 =
            fold (\<lambda>it mapping.
                    push_indices arg_names_unique (fst it)
                      (map_get (entry_function_args st) (fst it) []) mapping)
              entries mapping1
      in (map Some arg_names_unique, st\<lparr>entry_function_arguments_mapping := mapping2\<rparr>))"

text \<open>
  Modelled from the spec: \<^verbatim>\<open>SymbolTable::add_symbol\<close> is not among the sources; it
  fails with \<open>DuplicateSymbol\<close> when the name is already present in the table.
\<close>

definition add_symbol ::
  "string \<Rightarrow> 'v \<Rightarrow> (string \<times> 'v) list \<Rightarrow> semantic_error + (string \<times> 'v) list" where
  "add_symbol name new_symbol scope =
     (if map_of scope name \<noteq> None then Inl (SemanticAbort ''DuplicateSymbol'')
      else Inr (map_set name new_symbol scope))"

text \<open>
  The formal arguments of a procedure: each name, in lowercase, must be bound in the
  procedure's scope or, under implicit typing, have a type in the implicit dictionary
  (it is then declared). The result is the argument list and the names of the scope.
\<close>

fun resolve_formals ::
  "bool \<Rightarrow> expr implicit_dictionary \<Rightarrow> arg_t list \<Rightarrow> string list
     \<Rightarrow> semantic_error + (string list \<times> string list)" where
  "resolve_formals implicit_typing dict [] current_scope = Inr ([], current_scope)"
| "resolve_formals implicit_typing dict (arg # vector_args) current_scope =
     (let arg_s = to_lower (arg_name arg) in
      if arg_s \<in> set current_scope
      then (case resolve_formals implicit_typing dict vector_args current_scope of
              Inl e \<Rightarrow> Inl e
            | Inr (args, scope') \<Rightarrow> Inr (arg_s # args, scope'))
      else if implicit_typing \<and> dict (take 1 arg_s) \<noteq> None \<and> dict (take 1 arg_s) \<noteq> Some None
      then (case resolve_formals implicit_typing dict vector_args (arg_s # current_scope) of
              Inl e \<Rightarrow> Inl e
            | Inr (args, scope') \<Rightarrow> Inr (arg_s # args, scope'))
      else Inl (SemanticAbort (''Dummy argument '' @ arg_s @ '' not defined'')))"

text \<open>
  \<^verbatim>\<open>create_template_entry_function\<close>: the new procedure gets a copy of the symbols of
  the subroutine's scope (\<open>old_scope\<close>), the master also the variable
  \<^verbatim>\<open>entry__lcompilers\<close>, and is added to the enclosing scope under \<open>function_name\<close>.
\<close>

definition create_template_entry_function ::
  "bool \<Rightarrow> expr implicit_dictionary \<Rightarrow> string list \<Rightarrow> string \<Rightarrow> arg_t list \<Rightarrow> bool
     \<Rightarrow> entry_state \<Rightarrow> semantic_error + entry_state" where
  "create_template_entry_function implicit_typing dict old_scope function_name vector_args
     is_master st =
     (let current_scope = (if is_master then ''entry__lcompilers'' # old_scope else old_scope) in
      if None \<in> set vector_args
      then Inl (SemanticAbort ''Alternate returns are not implemented yet'')
      else (case resolve_formals implicit_typing dict vector_args current_scope of
              Inl e \<Rightarrow> Inl e
            | Inr (args, scope') \<Rightarrow>
                (case add_symbol function_name (Function_symbol (to_lower function_name) args)
                        (parent_scope st) of
                   Inl e \<Rightarrow> Inl e
                 | Inr parent_scope' \<Rightarrow> Inr (st\<lparr>parent_scope := parent_scope'\<rparr>))))"

fun create_template_entry_functions ::
  "bool \<Rightarrow> expr implicit_dictionary \<Rightarrow> string list \<Rightarrow> (string \<times> ast_stmt list) list
     \<Rightarrow> entry_state \<Rightarrow> semantic_error + entry_state" where
  "create_template_entry_functions implicit_typing dict old_scope [] st = Inr st"
| "create_template_entry_functions implicit_typing dict old_scope (entry_function # rest) st =
     (case create_template_entry_function implicit_typing dict old_scope (fst entry_function)
             (map_get (entry_function_args st) (fst entry_function) []) False st of
        Inl e \<Rightarrow> Inl e
      | Inr st' \<Rightarrow> create_template_entry_functions implicit_typing dict old_scope rest st')"

text \<open>
  \<^verbatim>\<open>visit_Subroutine\<close>, as far as the entry rewrite goes: the formal arguments, the
  Function symbol of the subroutine, and the entry functions. The uses, declarations,
  attributes and contained procedures are taken as processed: \<open>declared\<close> holds the
  names they have bound in the subroutine's scope, and the subroutine's name is new in
  the enclosing scope.
\<close>

definition visit_Subroutine ::
  "bool \<Rightarrow> expr implicit_dictionary \<Rightarrow> string list \<Rightarrow> Subroutine_t \<Rightarrow> entry_state
     \<Rightarrow> semantic_error + entry_state" where
  "visit_Subroutine implicit_typing dict declared x st =
     (let sym_name = to_lower (sub_m_name x) in
      if None \<in> set (sub_m_args x)
      then Inl (SemanticAbort ''Alternate returns are not implemented yet'')
      else (case resolve_formals implicit_typing dict (sub_m_args x) declared of
              Inl e \<Rightarrow> Inl e
            | Inr (args, current_scope) \<Rightarrow>
                (case add_symbol sym_name (Function_symbol (to_lower sym_name) args)
                        (parent_scope st) of
                   Inl e \<Rightarrow> Inl e
                 | Inr parent_scope' \<Rightarrow>
                     (case subroutine_contains_entry_function sym_name (sub_m_body x)
                             (st\<lparr>parent_scope := parent_scope'\<rparr>) of
                        (False, st1) \<Rightarrow> Inr (st1\<lparr>entry_function_args := []\<rparr>)
                      | (True, st1) \<Rightarrow>
                          (case create_template_entry_functions implicit_typing dict current_scope
                                  (map_get (entry_functions st1) sym_name []) st1 of
                             Inl e \<Rightarrow> Inl e
                           | Inr st2 \<Rightarrow>
                               (case perform_argument_mapping (sub_m_args x) sym_name st2 of
                                  (master_args, st3) \<Rightarrow>
                                    (case create_template_entry_function implicit_typing dict
                                            current_scope (sym_name @ ''_main__lcompilers'')
                                            master_args True st3 of
                                       Inl e \<Rightarrow> Inl e
                                     | Inr st4 \<Rightarrow> Inr (st4\<lparr>entry_function_args := []\<rparr>))))))))"

text \<open>The resolver's state before the first procedure.\<close>

definition initial_entry_state :: entry_state where
  "initial_entry_state =
     \<lparr>entry_functions = [], entry_function_args = [], entry_function_arguments_mapping = [],
      parent_scope = []\<rparr>"

section \<open>Resolver: use\<close>

text \<open>
  The state an import works on: the arena and its next free address, the scope the
  \<^verbatim>\<open>use\<close> statement stands in (\<^verbatim>\<open>current_scope\<close>) and the module that owns it, the
  default access, the worklist \<^verbatim>\<open>to_be_imported_later\<close> and the warnings emitted.
\<close>

record use_state =
  asr_nodes :: arena
  next_symbol :: sym_ref
  current_scope :: SymbolTable
  current_module :: "sym_ref option"
  dflt_access :: accessType
  to_be_imported_later :: "(string \<times> string) list"
  warnings :: "string list"

text \<open>Allocation of a node (\<^verbatim>\<open>ASR::make_..._t\<close>).\<close>

definition make_symbol :: "symbol \<Rightarrow> use_state \<Rightarrow> sym_ref \<times> use_state" where
  "make_symbol s st =
     (next_symbol st,
      st\<lparr>asr_nodes := (asr_nodes st)(next_symbol st \<mapsto> s), next_symbol := Suc (next_symbol st)\<rparr>)"

definition make_ExternalSymbol_t ::
  "string \<Rightarrow> sym_ref option \<Rightarrow> string \<Rightarrow> string \<Rightarrow> use_state \<Rightarrow> sym_ref \<times> use_state" where
  "make_ExternalSymbol_t a_name a_external a_module_name a_original_name st =
     make_symbol
       (ExternalSymbol_t a_name (current_module st) a_external a_module_name a_original_name
          (dflt_access st)) st"

text \<open>
  Modelled from the spec: the operations of \<^verbatim>\<open>SymbolTable\<close> on the current scope.
  \<^verbatim>\<open>add_symbol\<close> fails on a name that is present, \<^verbatim>\<open>add_or_overwrite_symbol\<close>
  replaces it, \<^verbatim>\<open>erase_symbol\<close> removes it.
\<close>

definition scope_update ::
  "((string \<times> sym_ref) list \<Rightarrow> (string \<times> sym_ref) list) \<Rightarrow> use_state \<Rightarrow> use_state" where
  "scope_update f st =
     st\<lparr>current_scope :=
          SymbolTable (counter (current_scope st)) (f (get_scope (current_scope st)))
            (parent (current_scope st))\<rparr>"

definition erase_symbol :: "string \<Rightarrow> use_state \<Rightarrow> use_state" where
  "erase_symbol name st = scope_update (filter (\<lambda>binding. fst binding \<noteq> name)) st"

definition add_or_overwrite_symbol :: "string \<Rightarrow> sym_ref \<Rightarrow> use_state \<Rightarrow> use_state" where
  "add_or_overwrite_symbol name s st = scope_update (map_set name s) st"

definition scope_add_symbol :: "string \<Rightarrow> sym_ref \<Rightarrow> use_state \<Rightarrow> semantic_error + use_state" where
  "scope_add_symbol name s st =
     (if get_symbol (current_scope st) name \<noteq> None then Inl (SemanticAbort ''DuplicateSymbol'')
      else Inr (add_or_overwrite_symbol name s st))"

definition quoted :: "string \<Rightarrow> string" where
  "quoted s = [CHR 0x27] @ s @ [CHR 0x27]"

definition shadow_warning :: "string \<Rightarrow> string \<Rightarrow> string" where
  "shadow_warning local_sym module_name =
     ''Symbol '' @ quoted local_sym @ '' from module '' @ quoted module_name @ '' shadows '' @
     quoted local_sym @ '' in the current scope''"

definition add_warning :: "string \<Rightarrow> use_state \<Rightarrow> use_state" where
  "add_warning message st = st\<lparr>warnings := warnings st @ [message]\<rparr>"

text \<open>
  The block the branches of \<^verbatim>\<open>import_symbols_util\<close> repeat: when the local name is
  bound, warn and erase it.
\<close>

definition warn_and_erase :: "string \<Rightarrow> string \<Rightarrow> use_state \<Rightarrow> use_state" where
  "warn_and_erase local_sym module_name st =
     erase_symbol local_sym (add_warning (shadow_warning local_sym module_name) st)"

text \<open>
  Modelled from the spec: \<^verbatim>\<open>ASRUtils::get_sym_module\<close>, the module that owns the
  symbol, or \<^verbatim>\<open>nullptr\<close>.
\<close>

definition get_sym_module :: "arena \<Rightarrow> sym_ref \<Rightarrow> symbol option" where
  "get_sym_module al f =
     (case al f of
        None \<Rightarrow> None
      | Some s \<Rightarrow>
          (case m_module s of
             None \<Rightarrow> None
           | Some r \<Rightarrow>
               (case al r of
                  Some (Module_t n md tab) \<Rightarrow> Some (Module_t n md tab)
                | _ \<Rightarrow> None)))"

text \<open>
  The template parameter \<^verbatim>\<open>T\<close> of \<^verbatim>\<open>process_generic_proc_custom_op\<close> with its
  \<^verbatim>\<open>constructor\<close>; \<open>aggregate_procs T s\<close> is \<^verbatim>\<open>down_cast<T>(s)->m_procs\<close>, defined
  when \<open>s\<close> is a \<open>T\<close>.
\<close>

datatype aggregate_kind = GenericProcedure | CustomOperator

definition aggregate_procs :: "aggregate_kind \<Rightarrow> symbol option \<Rightarrow> sym_ref list option" where
  "aggregate_procs T s =
     (case s of
        Some (GenericProcedure_t _ _ procs _) \<Rightarrow> (if T = GenericProcedure then Some procs else None)
      | Some (CustomOperator_t _ _ procs _) \<Rightarrow> (if T = CustomOperator then Some procs else None)
      | _ \<Rightarrow> None)"

definition constructor ::
  "aggregate_kind \<Rightarrow> string \<Rightarrow> sym_ref list \<Rightarrow> use_state \<Rightarrow> sym_ref \<times> use_state" where
  "constructor T a_name a_procs st =
     make_symbol
       (case T of
          GenericProcedure \<Rightarrow> GenericProcedure_t a_name (current_module st) a_procs (dflt_access st)
        | CustomOperator \<Rightarrow> CustomOperator_t a_name (current_module st) a_procs (dflt_access st))
       st"

text \<open>\<^verbatim>\<open>gp->m_procs = gp_procs.p; gp->n_procs = gp_procs.size();\<close>\<close>

definition set_procs :: "sym_ref \<Rightarrow> sym_ref list \<Rightarrow> use_state \<Rightarrow> use_state" where
  "set_procs gp gp_procs st =
     st\<lparr>asr_nodes :=
          (asr_nodes st)
            (gp := (case asr_nodes st gp of
                      Some (GenericProcedure_t n md _ ac) \<Rightarrow> Some (GenericProcedure_t n md gp_procs ac)
                    | Some (CustomOperator_t n md _ ac) \<Rightarrow> Some (CustomOperator_t n md gp_procs ac)
                    | other \<Rightarrow> other))\<rparr>"

definition is_ExternalSymbol_t :: "symbol option \<Rightarrow> bool" where
  "is_ExternalSymbol_t s = (case s of Some (ExternalSymbol_t _ _ _ _ _ _) \<Rightarrow> True | _ \<Rightarrow> False)"

definition aggregate_kind_of :: "symbol option \<Rightarrow> aggregate_kind option" where
  "aggregate_kind_of s =
     (case s of
        Some (GenericProcedure_t _ _ _ _) \<Rightarrow> Some GenericProcedure
      | Some (CustomOperator_t _ _ _ _) \<Rightarrow> Some CustomOperator
      | _ \<Rightarrow> None)"

text \<open>
  The branches of \<^verbatim>\<open>import_symbols_util\<close> for a remote symbol \<open>t\<close> that is no
  aggregate. The branch of an ExternalSymbol ends in a call of
  \<^verbatim>\<open>process_generic_proc_custom_op\<close> when its target is an aggregate: the result then
  names the kind and the target, for \<open>import_symbols_util\<close> to make the call.
\<close>

definition import_symbols_util_branch ::
  "symbol \<Rightarrow> string \<Rightarrow> string \<Rightarrow> sym_ref \<Rightarrow> use_state
     \<Rightarrow> semantic_error + ((aggregate_kind \<times> sym_ref) option \<times> use_state)" where
  "import_symbols_util_branch m remote_sym local_sym t st =
     (case asr_nodes st t of
        Some (Function_t msub_m_name md return_var ac) \<Rightarrow>
          (case return_var of
             None \<Rightarrow>
               (let st1 = (if get_symbol (current_scope st) local_sym \<noteq> None
                           then warn_and_erase local_sym (m_name m) st else st) in
                case make_ExternalSymbol_t local_sym (Some t) (m_name m) msub_m_name st1 of
                  (sub, st2) \<Rightarrow> map_sum id (Pair None) (scope_add_symbol local_sym sub st2))
           | Some _ \<Rightarrow>
               (case (case get_symbol (current_scope st) local_sym of
                        None \<Rightarrow> Inr False
                      | Some imported_func_sym \<Rightarrow>
                          (case asr_nodes st imported_func_sym of
                             Some (ExternalSymbol_t _ _ ext _ _ _) \<Rightarrow> Inr (ext \<noteq> Some t)
                           | _ \<Rightarrow> Inl AssertFailed)) of
                  Inl e \<Rightarrow> Inl e
                | Inr is_already_defined \<Rightarrow>
                    (let st1 = (if is_already_defined
                                then warn_and_erase local_sym (m_name m) st else st) in
                     case make_ExternalSymbol_t local_sym (Some t) (m_name m) msub_m_name st1 of
                       (fn, st2) \<Rightarrow> Inr (None, add_or_overwrite_symbol local_sym fn st2))))
      | Some (Variable_t mv_m_name md ty intent storage mv_m_access) \<Rightarrow>
          (let st1 = (if get_symbol (current_scope st) local_sym \<noteq> None
                      then warn_and_erase local_sym (m_name m) st else st) in
           if mv_m_access = Private
           then Inl (SemanticAbort (''Private variable `'' @ local_sym @ ''` cannot be imported''))
           else (case make_ExternalSymbol_t local_sym (Some t) (m_name m) mv_m_name st1 of
                   (v, st2) \<Rightarrow> map_sum id (Pair None) (scope_add_symbol local_sym v st2)))
      | Some (Struct_t mv_m_name md methods ac) \<Rightarrow>
          (let st0 = (if resolve_symbol (m_symtab m) (''~'' @ remote_sym) \<noteq> None
                      then st\<lparr>to_be_imported_later :=
                                to_be_imported_later st @ [(''~'' @ remote_sym, ''~'' @ local_sym)]\<rparr>
                      else st) in
           case get_symbol (current_scope st0) local_sym of
             None \<Rightarrow>
               (case make_ExternalSymbol_t local_sym (Some t) (m_name m) mv_m_name st0 of
                  (v, st2) \<Rightarrow> map_sum id (Pair None) (scope_add_symbol local_sym v st2))
           | Some imported_struct_type \<Rightarrow>
               if symbol_get_past_external (asr_nodes st0) imported_struct_type = Some t
               then Inr (None, st0)
               else (case make_ExternalSymbol_t local_sym (Some t) (m_name m) mv_m_name
                            (warn_and_erase local_sym (m_name m) st0) of
                       (v, st2) \<Rightarrow> map_sum id (Pair None) (scope_add_symbol local_sym v st2)))
      | Some (Requirement_t mreq_m_name md) \<Rightarrow>
          (case make_ExternalSymbol_t local_sym (Some t) (m_name m) mreq_m_name st of
             (req, st2) \<Rightarrow> Inr (None, add_or_overwrite_symbol local_sym req st2))
      | Some (Template_t mtemp_m_name md) \<Rightarrow>
          (case make_ExternalSymbol_t local_sym (Some t) (m_name m) mtemp_m_name st of
             (temp, st2) \<Rightarrow> Inr (None, add_or_overwrite_symbol local_sym temp st2))
      | Some (ExternalSymbol_t _ _ ext_sym_m_external ext_sym_m_module_name
                ext_sym_m_original_name _) \<Rightarrow>
          (case make_ExternalSymbol_t local_sym ext_sym_m_external ext_sym_m_module_name
                  ext_sym_m_original_name st of
             (temp, st2) \<Rightarrow>
               (let st3 = add_or_overwrite_symbol local_sym temp st2 in
                case ext_sym_m_external of
                  None \<Rightarrow> Inl AssertFailed
                | Some ext \<Rightarrow>
                    (case aggregate_kind_of (asr_nodes st3 ext) of
                       Some T \<Rightarrow> Inr (Some (T, ext), st3)
                     | None \<Rightarrow> Inr (None, st3))))
      | _ \<Rightarrow>
          Inl (LCompilersException
            ''Only Subroutines, Functions, Variables and Derived supported in use''))"

text \<open>
  The last branch of \<^verbatim>\<open>process_generic_proc_custom_op\<close>: the local name is not bound
  yet. The constituents missing from the scope are queued; the aggregate is rebuilt
  locally when none is missing and imported as an ExternalSymbol otherwise.
\<close>

definition import_new_aggregate ::
  "aggregate_kind \<Rightarrow> string \<Rightarrow> sym_ref \<Rightarrow> symbol \<Rightarrow> sym_ref list \<Rightarrow> use_state
     \<Rightarrow> semantic_error + use_state" where
  "import_new_aggregate T local_sym t m gp_ext_m_procs st =
     (let proc_names = map (symbol_name (asr_nodes st)) gp_ext_m_procs;
          missing = filter (\<lambda>proc_name. resolve_symbol (current_scope st) proc_name = None)
                      proc_names;
          st1 = st\<lparr>to_be_imported_later :=
                    to_be_imported_later st @
                    map (\<lambda>proc_name. (proc_name, proc_name @ ''@'' @ local_sym)) missing\<rparr>
      in case (if missing = []
               then constructor T local_sym
                      (map (\<lambda>proc_name. the (resolve_symbol (current_scope st) proc_name))
                         proc_names) st1
               else make_ExternalSymbol_t local_sym (Some t) (m_name m)
                      (symbol_name (asr_nodes st) t) st1) of
           (ep, st2) \<Rightarrow> scope_add_symbol local_sym ep st2)"

text \<open>
  \<^verbatim>\<open>import_symbols_util\<close> and \<^verbatim>\<open>process_generic_proc_custom_op\<close> call each other,
  and nothing in the source bounds the recursion, so the model takes fuel.
  \<open>import_procs\<close> is the loop over the constituents of an aggregate: \<open>mangle\<close> builds the
  local name under which a missing constituent is imported, and \<open>twice\<close> is set for the
  loop that ends in a second, unguarded \<^verbatim>\<open>push_back\<close>.
\<close>

function import_symbols_util ::
  "nat \<Rightarrow> symbol \<Rightarrow> string \<Rightarrow> string \<Rightarrow> string \<Rightarrow> use_state \<Rightarrow> semantic_error + use_state"
and process_generic_proc_custom_op ::
  "nat \<Rightarrow> aggregate_kind \<Rightarrow> string \<Rightarrow> sym_ref \<Rightarrow> symbol \<Rightarrow> use_state
     \<Rightarrow> semantic_error + use_state"
and import_procs ::
  "nat \<Rightarrow> (string \<Rightarrow> string) \<Rightarrow> bool \<Rightarrow> sym_ref list \<Rightarrow> sym_ref list \<Rightarrow> use_state
     \<Rightarrow> semantic_error + (sym_ref list \<times> use_state)"
where
  "import_symbols_util 0 m msym remote_sym0 local_sym st = Inl OutOfFuel"
| "import_symbols_util (Suc fuel) m msym remote_sym0 local_sym st =
     (case resolve_symbol (m_symtab m) (to_lower remote_sym0) of
        None \<Rightarrow>
          Inl (SemanticAbort (''The symbol '' @ quoted (to_lower remote_sym0) @
                 '' not found in the module '' @ quoted msym))
      | Some t \<Rightarrow>
          (case aggregate_kind_of (asr_nodes st t) of
             Some T \<Rightarrow> process_generic_proc_custom_op fuel T local_sym t m st
           | None \<Rightarrow>
               (case import_symbols_util_branch m (to_lower remote_sym0) local_sym t st of
                  Inl e \<Rightarrow> Inl e
                | Inr (None, st') \<Rightarrow> Inr st'
                | Inr (Some (T, ext), st') \<Rightarrow>
                    process_generic_proc_custom_op fuel T local_sym ext m st')))"
| "process_generic_proc_custom_op fuel T local_sym t m st =
     (case aggregate_procs T (asr_nodes st t) of
        None \<Rightarrow> Inl AssertFailed
      | Some gp_ext_m_procs \<Rightarrow>
          (case get_symbol (current_scope st) local_sym of
             None \<Rightarrow> import_new_aggregate T local_sym t m gp_ext_m_procs st
           | Some gp_sym \<Rightarrow>
               if is_ExternalSymbol_t (asr_nodes st gp_sym)
               then (case aggregate_procs T
                            (case symbol_get_past_external (asr_nodes st) gp_sym of
                               None \<Rightarrow> None
                             | Some gp \<Rightarrow> asr_nodes st gp) of
                       None \<Rightarrow> Inl AssertFailed
                     | Some gp_m_procs \<Rightarrow>
                         (case import_procs fuel (\<lambda>proc_name. proc_name @ ''@'' @ local_sym) False
                                 gp_m_procs [] st of
                            Inl e \<Rightarrow> Inl e
                          | Inr (gp_procs1, st1) \<Rightarrow>
                              (case import_procs fuel (\<lambda>proc_name. proc_name @ ''@'' @ local_sym)
                                      False gp_ext_m_procs gp_procs1 st1 of
                                 Inl e \<Rightarrow> Inl e
                               | Inr (gp_procs, st2) \<Rightarrow>
                                   (case constructor T local_sym gp_procs st2 of
                                      (ep, st3) \<Rightarrow>
                                        Inr (add_or_overwrite_symbol local_sym ep st3)))))
               else (case aggregate_procs T (asr_nodes st gp_sym) of
                       None \<Rightarrow> Inl AssertFailed
                     | Some gp_m_procs \<Rightarrow>
                         (case import_procs fuel (\<lambda>proc_name. ''@'' @ proc_name @ ''@'') True
                                 gp_ext_m_procs gp_m_procs st of
                            Inl e \<Rightarrow> Inl e
                          | Inr (gp_procs, st1) \<Rightarrow> Inr (set_procs gp_sym gp_procs st1)))))"
| "import_procs fuel mangle twice [] gp_procs st = Inr (gp_procs, st)"
| "import_procs fuel mangle twice (proc # procs) gp_procs st =
     (case (case resolve_symbol (current_scope st) (symbol_name (asr_nodes st) proc) of
              Some m_proc \<Rightarrow> Inr (Some m_proc, st)
            | None \<Rightarrow>
                (case resolve_symbol (current_scope st) (mangle (symbol_name (asr_nodes st) proc)) of
                   Some m_proc \<Rightarrow> Inr (Some m_proc, st)
                 | None \<Rightarrow>
                     (case get_sym_module (asr_nodes st) proc of
                        None \<Rightarrow> Inl AssertFailed
                      | Some m_ \<Rightarrow>
                          (case fuel of
                             0 \<Rightarrow> Inl OutOfFuel
                           | Suc fuel' \<Rightarrow>
                               (case import_symbols_util fuel' m_ (m_name m_)
                                       (symbol_name (asr_nodes st) proc)
                                       (mangle (symbol_name (asr_nodes st) proc)) st of
                                  Inl e \<Rightarrow> Inl e
                                | Inr st' \<Rightarrow>
                                    Inr (resolve_symbol (current_scope st')
                                           (mangle (symbol_name (asr_nodes st) proc)), st')))))) of
        Inl e \<Rightarrow> Inl e
      | Inr (None, st') \<Rightarrow> Inl AssertFailed
      | Inr (Some m_proc, st') \<Rightarrow>
          import_procs fuel mangle twice procs
            ((if present gp_procs m_proc then gp_procs else gp_procs @ [m_proc]) @
             (if twice then [m_proc] else []))
            st')"
  by pat_completeness auto
termination
  by (relation "inv_image (less_than <*lex*> less_than) (\<lambda>x. case x of
          Inl (fuel, m, msym, r, l, st) \<Rightarrow> (3 * fuel + 2, 0)
        | Inr (Inl (fuel, T, l, t, m, st)) \<Rightarrow> (3 * fuel + 4, 0)
        | Inr (Inr (fuel, mangle, twice, procs, gp, st)) \<Rightarrow> (3 * fuel + 3, length procs))")
    auto

text \<open>
  The loop of \<^verbatim>\<open>visit_Use\<close> over the symbols of an only-list, for plain symbols
  (\<^verbatim>\<open>UseSymbol\<close>) given as pairs of the remote and the local name.
\<close>

fun import_symbols ::
  "nat \<Rightarrow> symbol \<Rightarrow> string \<Rightarrow> (string \<times> string) list \<Rightarrow> use_state \<Rightarrow> semantic_error + use_state" where
  "import_symbols fuel m msym [] st = Inr st"
| "import_symbols fuel m msym (use_symbol # symbols) st =
     (case import_symbols_util fuel m msym (fst use_symbol) (snd use_symbol) st of
        Inl e \<Rightarrow> Inl e
      | Inr st' \<Rightarrow> import_symbols fuel m msym symbols st')"






text \<open>
  A module and a program for concrete runs: the module \<open>a\<close> holds the function \<open>pa1\<close>,
  the generic procedure \<open>plus\<close> with the constituent \<open>pa1\<close>, the subroutine \<open>run\<close> and
  the variable \<open>x\<close>; the program's scope is empty (\<open>use_example_state\<close>) or declares a
  variable \<open>x\<close> and a variable \<open>run\<close> of its own (\<open>use_example_bound\<close>).
\<close>

definition global_scope :: SymbolTable where
  "global_scope = SymbolTable 1 [(''a'', 100)] None"

definition module_a :: symbol where
  "module_a =
     Module_t ''a'' None
       (SymbolTable 2 [(''pa1'', 101), (''plus'', 102), (''run'', 103), (''x'', 104)]
          (Some global_scope))"

definition use_example_arena :: arena where
  "use_example_arena =
     [100 \<mapsto> module_a,
      101 \<mapsto> Function_t ''pa1'' (Some 100) (Some (Var_t 105)) Public,
      102 \<mapsto> GenericProcedure_t ''plus'' (Some 100) [101] Public,
      103 \<mapsto> Function_t ''run'' (Some 100) None Public,
      104 \<mapsto> Variable_t ''x'' (Some 100) (Integer_t 4) Local Default Public,
      105 \<mapsto> Variable_t ''pa1'' (Some 100) (Integer_t 4) ReturnVar Default Public,
      200 \<mapsto> Variable_t ''x'' None (Real_t 4) Local Default Public,
      201 \<mapsto> Variable_t ''run'' None (Real_t 4) Local Default Public]"

definition use_example_state :: use_state where
  "use_example_state =
     \<lparr>asr_nodes = use_example_arena, next_symbol = 300,
      current_scope = SymbolTable 3 [] (Some global_scope), current_module = None,
      dflt_access = Public, to_be_imported_later = [], warnings = []\<rparr>"


text \<open>
  What an import leaves in the current scope under a name: the binding, and the
  constituents when the binding is an aggregate.
\<close>

definition bound_procs :: "string \<Rightarrow> use_state \<Rightarrow> sym_ref list option" where
  "bound_procs name st =
     (case get_symbol (current_scope st) name of
        None \<Rightarrow> None
      | Some s \<Rightarrow>
          (case asr_nodes st s of
             Some (GenericProcedure_t _ _ procs _) \<Rightarrow> Some procs
           | Some (CustomOperator_t _ _ procs _) \<Rightarrow> Some procs
           | _ \<Rightarrow> None))"

text \<open>
  What shadowing leaves behind: one more warning, and the local name bound to a new
  ExternalSymbol of the imported symbol \<open>t\<close>.
\<close>

definition shadows :: "sym_ref \<Rightarrow> string \<Rightarrow> symbol \<Rightarrow> use_state \<Rightarrow> use_state \<Rightarrow> bool" where
  "shadows t local_sym m st st' \<longleftrightarrow>
     warnings st' = warnings st @ [shadow_warning local_sym (m_name m)] \<and>
     get_symbol (current_scope st') local_sym = Some (next_symbol st) \<and>
     asr_nodes st' (next_symbol st) =
       Some (ExternalSymbol_t local_sym (current_module st) (Some t) (m_name m)
               (symbol_name (asr_nodes st) t) (dflt_access st))"

text \<open>
  The program's scope after \<open>use a, only: plus\<close> has found the constituent \<open>pa1\<close>
  missing: \<open>plus\<close> is bound to an ExternalSymbol of the generic procedure of the module.
\<close>

definition use_example_external :: use_state where
  "use_example_external =
     \<lparr>asr_nodes = use_example_arena(202 \<mapsto> ExternalSymbol_t ''plus'' None (Some 102) ''a'' ''plus'' Public),
      next_symbol = 300,
      current_scope = SymbolTable 3 [(''plus'', 202)] (Some global_scope),
      current_module = None, dflt_access = Public,
      to_be_imported_later = [(''pa1'', ''pa1@plus'')], warnings = []\<rparr>"

section \<open>Resolver: the return variable of a function\<close>

text \<open>
  The attributes of a procedure in the syntax tree: a simple attribute (\<^verbatim>\<open>pure\<close>,
  \<^verbatim>\<open>elemental\<close>, ...), a type, or any other attribute.
\<close>

datatype 'k decl_attribute = SimpleAttribute_t | AttrType_t "'k AttrType" | Other_attribute

fun is_SimpleAttribute_t :: "'k decl_attribute \<Rightarrow> bool" where
  "is_SimpleAttribute_t SimpleAttribute_t = True"
| "is_SimpleAttribute_t _ = False"

text \<open>
  The first half of \<^verbatim>\<open>find_return_type\<close>: the type attribute that stands for the
  implicit type of the return variable. It never has a kind item.
\<close>

definition implicit_return_type ::
  "expr implicit_dictionary \<Rightarrow> string \<Rightarrow> semantic_error + 'k AttrType" where
  "implicit_return_type implicit_dictionary return_var_name =
     (case implicit_dictionary (to_lower (take 1 return_var_name)) of
        Some (Some t) \<Rightarrow>
          (case t of
             Integer_t _ \<Rightarrow> Inr (AttrType TypeInteger [])
           | Real_t a_kind \<Rightarrow>
               Inr (AttrType (if a_kind = 8 then TypeDoublePrecision else TypeReal) [])
           | Complex_t _ \<Rightarrow> Inr (AttrType TypeComplex [])
           | Logical_t _ \<Rightarrow> Inr (AttrType TypeLogical [])
           | String_t _ _ _ _ \<Rightarrow> Inr (AttrType TypeCharacter [])
           | _ \<Rightarrow> Inl (SemanticAbort ''Implicit return type not supported yet''))
      | _ \<Rightarrow>
          Inl (SemanticAbort (''No implicit return type available for `'' @ return_var_name @ ''`'')))"

text \<open>The loop of \<^verbatim>\<open>find_return_type\<close> over the attributes.\<close>

fun find_return_type_loop ::
  "'k decl_attribute list \<Rightarrow> 'k AttrType option \<Rightarrow> bool \<Rightarrow> semantic_error + 'k AttrType option" where
  "find_return_type_loop [] r found = Inr r"
| "find_return_type_loop (AttrType_t a # attributes) r found =
     (if found then Inl (SemanticAbort ''Return type declared twice'')
      else find_return_type_loop attributes (Some a) True)"
| "find_return_type_loop (_ # attributes) r found = find_return_type_loop attributes r found"

text \<open>
  \<^verbatim>\<open>find_return_type\<close>; \<open>return_var_sym\<close> says whether the return variable is
  declared in the function's scope.
\<close>

definition find_return_type ::
  "bool \<Rightarrow> expr implicit_dictionary \<Rightarrow> 'k decl_attribute list \<Rightarrow> string \<Rightarrow> bool
     \<Rightarrow> semantic_error + 'k AttrType option" where
  "find_return_type implicit_typing implicit_dictionary attributes return_var_name return_var_sym =
     (if list_all is_SimpleAttribute_t attributes \<and> implicit_typing \<and> \<not> return_var_sym
      then (case implicit_return_type implicit_dictionary return_var_name of
              Inl e \<Rightarrow> Inl e
            | Inr r \<Rightarrow> find_return_type_loop attributes (Some r) False)
      else find_return_type_loop attributes None False)"

text \<open>
  What \<^verbatim>\<open>visit_Function\<close> takes from code that is not among the sources, beyond the
  collaborators of an implicit statement: \<open>extract_kind_from_ttype_t\<close> is the kind of
  the type of a length item, and \<open>derived_return_type\<close> is the type of a return type
  \<^verbatim>\<open>type(...)\<close> (\<^verbatim>\<open>determine_type\<close>, \<^verbatim>\<open>make_StructType_t_util\<close>).
\<close>

record 'k function_env = "'k implicit_env" +
  extract_kind_from_ttype_t :: "'k \<Rightarrow> int"
  derived_return_type :: "'k AttrType \<Rightarrow> semantic_error + expr ttype"

text \<open>The kind item of the return type: \<open>(i_kind, a_kind, a_len)\<close>.\<close>

definition return_type_kinds ::
  "'k function_env \<Rightarrow> 'k AttrType \<Rightarrow> semantic_error + (int \<times> int \<times> int)" where
  "return_type_kinds env return_type =
     (let i_kind = default_integer_kind env; a_kind = 4; a_len = - 10 in
      case a_m_kind return_type of
        [] \<Rightarrow> Inr (i_kind, a_kind, a_len)
      | [k] \<Rightarrow>
          (if a_m_type return_type = TypeCharacter
           then (case extract_len env k of
                   Inl e \<Rightarrow> Inl e
                 | Inr l \<Rightarrow> Inr (i_kind, extract_kind_from_ttype_t env k, l))
           else (case extract_kind env k of
                   Inl e \<Rightarrow> Inl e
                 | Inr v \<Rightarrow> Inr (v, v, a_len)))
      | _ \<Rightarrow> Inl (SemanticAbort ''Only one kind item supported for now''))"

definition return_var_type :: "'k function_env \<Rightarrow> 'k AttrType \<Rightarrow> semantic_error + expr ttype" where
  "return_var_type env return_type =
     (case return_type_kinds env return_type of
        Inl e \<Rightarrow> Inl e
      | Inr (i_kind, a_kind, a_len) \<Rightarrow>
          (case a_m_type return_type of
             TypeInteger \<Rightarrow> Inr (Integer_t i_kind)
           | TypeReal \<Rightarrow> Inr (Real_t a_kind)
           | TypeDoublePrecision \<Rightarrow> Inr (Real_t 8)
           | TypeComplex \<Rightarrow> Inr (Complex_t a_kind)
           | TypeDoubleComplex \<Rightarrow> Inr (Complex_t 8)
           | TypeLogical \<Rightarrow> Inr (Logical_t (default_integer_kind env))
           | TypeCharacter \<Rightarrow>
               Inr (String_t 1 (Some (IntegerConstant_t a_len (Integer_t a_kind)))
                      ExpressionLength DescriptorString)
           | TypeType \<Rightarrow> derived_return_type env return_type
           | _ \<Rightarrow> Inl (SemanticAbort ''Return type not supported'')))"

text \<open>
  The part of \<^verbatim>\<open>visit_Function\<close> that handles the return variable, after the
  declarations of the function have been processed: \<open>return_var_sym\<close> is the binding of
  \<open>return_var_name\<close> in the function's scope, and the result is the Variable the scope
  binds to that name afterwards. \<open>owner\<close> is the module around the function, if any.
\<close>

definition visit_Function_return_var ::
  "bool \<Rightarrow> bool \<Rightarrow> 'k function_env \<Rightarrow> expr implicit_dictionary \<Rightarrow> sym_ref option
     \<Rightarrow> 'k decl_attribute list \<Rightarrow> string \<Rightarrow> symbol option \<Rightarrow> semantic_error + symbol" where
  "visit_Function_return_var implicit_typing implicit_interface env implicit_dictionary owner
     x_m_attributes return_var_name return_var_sym =
     (case find_return_type implicit_typing implicit_dictionary x_m_attributes return_var_name
             (return_var_sym \<noteq> None) of
        Inl e \<Rightarrow> Inl e
      | Inr return_type \<Rightarrow>
          (case return_var_sym of
             None \<Rightarrow>
               (case return_type of
                  None \<Rightarrow> Inl (SemanticAbort ''Return type not specified'')
                | Some attr_type \<Rightarrow>
                    (case return_var_type env attr_type of
                       Inl e \<Rightarrow> Inl e
                     | Inr type \<Rightarrow>
                         Inr (Variable_t return_var_name owner type ReturnVar Default Public)))
           | Some return_variable \<Rightarrow>
               if return_type \<noteq> None \<and>
                  \<not> (x_m_attributes = [] \<and> implicit_typing \<and> implicit_interface)
               then Inl (SemanticAbort ''Cannot specify the return type twice'')
               else (case return_variable of
                       Variable_t n md t i s ac \<Rightarrow> Inr (Variable_t n md t ReturnVar s ac)
                     | _ \<Rightarrow> Inl AssertFailed)))"

section \<open>Verifier: variables\<close>

text \<open>
  Modelled from the spec: \<^verbatim>\<open>ASRUtils::is_value_constant(e, len)\<close> and
  \<^verbatim>\<open>ASRUtils::extract_type\<close> are not among the sources. An integer constant is a
  compile-time constant and yields its value; \<open>extract_type_ttype\<close> is the type behind
  pointer, allocatable and array.
\<close>

fun is_value_constant :: "expr \<Rightarrow> int option" where
  "is_value_constant (IntegerConstant_t n t) = Some n"
| "is_value_constant _ = None"

definition extract_type_ttype :: "'e ttype \<Rightarrow> 'e ttype" where
  "extract_type_ttype t = type_get_past_array (type_get_past_allocatable (type_get_past_pointer t))"

text \<open>
  The checks of \<^verbatim>\<open>visit_Variable\<close> on a Variable of character type; \<open>x_m_abi_BindC\<close>
  says whether the ABI of the Variable is \<^verbatim>\<open>BindC\<close>.
\<close>

definition visit_Variable_character :: "bool \<Rightarrow> symbol \<Rightarrow> verify_error + unit" where
  "visit_Variable_character x_m_abi_BindC x =
     (case extract_type_ttype (m_type x) of
        String_t _ str_m_len str_m_len_kind str_m_physical_type \<Rightarrow>
          and_then
            (require (str_m_len_kind \<noteq> ImplicitLength)
               ''Variable symbol of string type can't have a length of kind ImplicitLength'')
         (and_then
            (if str_m_len_kind = DeferredLength
             then require (is_Allocatable_t (m_type x) \<or> is_Pointer_t (m_type x))
                    ''Variable of string type with length kind DeferredLength must be allocatable OR pointer''
             else Inr ())
         (and_then
            (if x_m_abi_BindC \<and> m_intent x \<noteq> Local \<and> is_String_t (m_type x) \<and>
                str_m_physical_type = CChar
             then and_then
                    (require (str_m_len_kind = ExpressionLength)
                       ''Cbind character variable that isn't local must have length kind ExpressionLength'')
                    (require
                       ((case str_m_len of
                           None \<Rightarrow> None
                         | Some len \<Rightarrow> extract_value len) = Some 1)
                       ''Cbind character variable that isn't local must have length 1'')
             else Inr ())
            (if str_m_physical_type = CChar
             then require (m_intent x \<noteq> Local)
                    ''CChar-string-physical type shouldn't be used with local variables''
             else Inr ())))
      | _ \<Rightarrow> Inr ())"

text \<open>
  \<^verbatim>\<open>visit_Variable\<close>. \<open>symtab_checks\<close> is the outcome of the checks on the parent
  symbol table and on the initialisation, \<open>values\<close> that of the visits of the symbolic
  value and the value, \<open>dependencies\<close> that of the checks on the dependency list, which
  run last.
\<close>

definition visit_Variable ::
  "expr verify_env \<Rightarrow> verify_error + unit \<Rightarrow> bool \<Rightarrow> verify_error + unit \<Rightarrow> verify_error + unit
     \<Rightarrow> symbol \<Rightarrow> verify_error + unit" where
  "visit_Variable env symtab_checks x_m_abi_BindC values dependencies x =
     and_then symtab_checks
    (and_then (if is_character (m_type x) then visit_Variable_character x_m_abi_BindC x else Inr ())
    (and_then values
    (and_then (visit_ttype env (m_type x)) dependencies)))"


section \<open>Properties of the implicit dictionary\<close>

lemma char_range_i_n: "char_range CHR ''i'' CHR ''n'' = ''ijklmn''"
  by code_simp

lemma char_range_o_z: "char_range CHR ''o'' CHR ''z'' = ''opqrstuvwxyz''"
  by code_simp

lemma char_range_a_h: "char_range CHR ''a'' CHR ''h'' = ''abcdefgh''"
  by code_simp

lemma char_between:
  assumes "a \<le> c" "c \<le> b"
  shows "c \<in> set (char_range a b)"
proof -
  have "(of_char a :: nat) \<le> of_char c" "(of_char c :: nat) \<le> of_char b"
    using assms by (simp_all add: less_eq_char_def)
  then have "(of_char c :: nat) \<in> {of_char a ..< Suc (of_char b)}"
    unfolding atLeastLessThan_iff by linarith
  then have "(of_char c :: nat) \<in> set [of_char a ..< Suc (of_char b)]"
    by (simp only: set_upt)
  then have "char_of (of_char c :: nat) \<in> char_of ` set [of_char a ..< Suc (of_char b) :: nat]"
    by (rule imageI)
  then show ?thesis by (simp add: char_range_def)
qed

lemma populate_unfolded:
  "populate_implicit_dictionary k d =
     d(''i'' \<mapsto> Some (Integer_t k), ''j'' \<mapsto> Some (Integer_t k), ''k'' \<mapsto> Some (Integer_t k),
       ''l'' \<mapsto> Some (Integer_t k), ''m'' \<mapsto> Some (Integer_t k), ''n'' \<mapsto> Some (Integer_t k),
       ''o'' \<mapsto> Some (Real_t 4), ''p'' \<mapsto> Some (Real_t 4), ''q'' \<mapsto> Some (Real_t 4),
       ''r'' \<mapsto> Some (Real_t 4), ''s'' \<mapsto> Some (Real_t 4), ''t'' \<mapsto> Some (Real_t 4),
       ''u'' \<mapsto> Some (Real_t 4), ''v'' \<mapsto> Some (Real_t 4), ''w'' \<mapsto> Some (Real_t 4),
       ''x'' \<mapsto> Some (Real_t 4), ''y'' \<mapsto> Some (Real_t 4), ''z'' \<mapsto> Some (Real_t 4),
       ''a'' \<mapsto> Some (Real_t 4), ''b'' \<mapsto> Some (Real_t 4), ''c'' \<mapsto> Some (Real_t 4),
       ''d'' \<mapsto> Some (Real_t 4), ''e'' \<mapsto> Some (Real_t 4), ''f'' \<mapsto> Some (Real_t 4),
       ''g'' \<mapsto> Some (Real_t 4), ''h'' \<mapsto> Some (Real_t 4))"
  unfolding populate_implicit_dictionary_def Let_def char_range_i_n char_range_o_z char_range_a_h
  by simp

text \<open>
  Claim C9. With implicit typing enabled a scope starts from
  \<^verbatim>\<open>populate_implicit_dictionary\<close>: whatever the dictionary held before, every letter
  from \<open>i\<close> to \<open>n\<close> is bound to Integer of the configured default integer kind, and every
  letter from \<open>a\<close> to \<open>h\<close> and from \<open>o\<close> to \<open>z\<close> to Real of kind 4.
\<close>

theorem populate_implicit_dictionary_letters:
  "(CHR ''i'' \<le> c \<and> c \<le> CHR ''n''
      \<longrightarrow> populate_implicit_dictionary k d [c] = Some (Some (Integer_t k))) \<and>
   ((CHR ''a'' \<le> c \<and> c \<le> CHR ''h'') \<or> (CHR ''o'' \<le> c \<and> c \<le> CHR ''z'')
      \<longrightarrow> populate_implicit_dictionary k d [c] = Some (Some (Real_t 4)))"
proof (intro conjI impI)
  assume "CHR ''i'' \<le> c \<and> c \<le> CHR ''n''"
  then have "c \<in> set ''ijklmn''"
    using char_between [of "CHR ''i''" c "CHR ''n''"] by (simp only: char_range_i_n)
  then show "populate_implicit_dictionary k d [c] = Some (Some (Integer_t k))"
    unfolding populate_unfolded by auto
next
  assume "(CHR ''a'' \<le> c \<and> c \<le> CHR ''h'') \<or> (CHR ''o'' \<le> c \<and> c \<le> CHR ''z'')"
  then have "c \<in> set ''abcdefgh'' \<or> c \<in> set ''opqrstuvwxyz''"
    using char_between [of "CHR ''a''" c "CHR ''h''"] char_between [of "CHR ''o''" c "CHR ''z''"]
    by (auto simp only: char_range_a_h char_range_o_z)
  then show "populate_implicit_dictionary k d [c] = Some (Some (Real_t 4))"
    unfolding populate_unfolded by auto
qed

theorem populate_implicit_dictionary_letters_witness:
  "populate_implicit_dictionary 4 Map.empty ''k'' = Some (Some (Integer_t 4 :: expr ttype)) \<and>
   populate_implicit_dictionary 4 Map.empty ''x'' = Some (Some (Real_t 4 :: expr ttype))"
  using populate_implicit_dictionary_letters [of "CHR ''k''" 4 Map.empty]
    populate_implicit_dictionary_letters [of "CHR ''x''" 4 Map.empty]
  by (simp add: less_eq_char_def)

lemma loop_append:
  "implicit_statements_loop env n (pre @ rest) d =
     (case implicit_statements_loop env n pre d of
        Inl e \<Rightarrow> Inl e
      | Inr d' \<Rightarrow> implicit_statements_loop env n rest d')"
  by (induction env n pre d rule: implicit_statements_loop.induct)
     (auto split: sum.splits)

lemma loop_none_aborts:
  "ImplicitNone \<in> set stmts \<Longrightarrow> n \<noteq> 1 \<Longrightarrow> \<exists>e. implicit_statements_loop env n stmts d = Inl e"
  by (induction env n stmts d rule: implicit_statements_loop.induct)
     (auto split: sum.splits)

text \<open>
  Claim C10, as amended. With implicit typing enabled, a scope whose list of implicit
  statements contains an \<open>implicit none\<close> and has a length other than one makes the
  resolver abort. The error is "No other implicit statement is allowed when 'implicit
  none' is used" when the statements before that \<open>implicit none\<close> were processed
  without error (the loop handles the statements in order, and an earlier statement
  that fails reports its own error). When \<open>implicit none\<close> is the only implicit
  statement, every entry of the dictionary is set to absent (\<^verbatim>\<open>nullptr\<close>).
\<close>

theorem process_implicit_statements_none:
  "(ImplicitNone \<in> set m_implicit \<and> length m_implicit \<noteq> 1
      \<longrightarrow> (\<exists>e. enter_scope_implicit True env implicit_stack is_interface m_implicit d = Inl e)) \<and>
   (length (pre @ ImplicitNone # post) \<noteq> 1 \<and>
    implicit_statements_loop env (length (pre @ ImplicitNone # post)) pre
      (populate_implicit_dictionary (default_integer_kind env) d) = Inr d'
      \<longrightarrow> enter_scope_implicit True env implicit_stack is_interface (pre @ ImplicitNone # post) d =
            Inl (SemanticAbort
              ''No other implicit statement is allowed when 'implicit none' is used'')) \<and>
   enter_scope_implicit True env implicit_stack is_interface [ImplicitNone] d =
     Inr (\<lambda>k. map_option (\<lambda>_. None) (populate_implicit_dictionary (default_integer_kind env) d k))"
proof (intro conjI impI)
  assume h: "ImplicitNone \<in> set m_implicit \<and> length m_implicit \<noteq> 1"
  then have "m_implicit \<noteq> []" by auto
  with h show "\<exists>e. enter_scope_implicit True env implicit_stack is_interface m_implicit d = Inl e"
    using loop_none_aborts [of m_implicit "length m_implicit" env]
    by (simp add: enter_scope_implicit_def process_implicit_statements_def)
next
  assume "length (pre @ ImplicitNone # post) \<noteq> 1 \<and>
    implicit_statements_loop env (length (pre @ ImplicitNone # post)) pre
      (populate_implicit_dictionary (default_integer_kind env) d) = Inr d'"
  then show "enter_scope_implicit True env implicit_stack is_interface (pre @ ImplicitNone # post) d =
            Inl (SemanticAbort
              ''No other implicit statement is allowed when 'implicit none' is used'')"
    by (simp add: enter_scope_implicit_def process_implicit_statements_def loop_append)
next
  show "enter_scope_implicit True env implicit_stack is_interface [ImplicitNone] d =
     Inr (\<lambda>k. map_option (\<lambda>_. None) (populate_implicit_dictionary (default_integer_kind env) d k))"
    by (simp add: enter_scope_implicit_def process_implicit_statements_def)
qed

text \<open>
  The claim as stated fails twice. An \<open>implicit type(t) (a)\<close> placed before the
  \<open>implicit none\<close> aborts with "Return type not supported", and the error of the claim
  is never emitted. With implicit typing disabled, two \<open>implicit none\<close> statements
  raise no error at all.
\<close>

theorem implicit_none_not_alone_counterexample:
  "enter_scope_implicit True plain_env [] False
     [Implicit [ImplicitSpec (AttrType TypeType []) [LetterSpec None CHR ''a'']], ImplicitNone]
     Map.empty = Inl (SemanticAbort ''Return type not supported'') \<and>
   enter_scope_implicit False plain_env [] False [ImplicitNone, ImplicitNone] Map.empty =
     Inr Map.empty"
  by (simp add: enter_scope_implicit_def process_implicit_statements_def
      process_implicit_spec_def implicit_kinds_def implicit_type_def plain_env_def)

theorem process_implicit_statements_none_witness:
  "(\<exists>e. enter_scope_implicit True plain_env [] False
          [ImplicitNone, Implicit [ImplicitSpec (AttrType TypeInteger []) [LetterSpec None CHR ''a'']]]
          Map.empty = Inl e) \<and>
   enter_scope_implicit True plain_env [] False
     [Implicit [ImplicitSpec (AttrType TypeInteger []) [LetterSpec None CHR ''a'']], ImplicitNone]
     Map.empty =
     Inl (SemanticAbort ''No other implicit statement is allowed when 'implicit none' is used'') \<and>
   map_sum id (\<lambda>d. d ''i'') (enter_scope_implicit True plain_env [] False [ImplicitNone] Map.empty) =
     Inr (Some None)"
proof -
  let ?s = "Implicit [ImplicitSpec (AttrType TypeInteger []) [LetterSpec None CHR ''a'']]
              :: unit implicit_statement"
  have ok: "\<exists>d'. implicit_statements_loop plain_env (length ([?s] @ ImplicitNone # [])) [?s]
      (populate_implicit_dictionary (default_integer_kind plain_env) Map.empty) = Inr d'"
    by (simp add: process_implicit_spec_def implicit_kinds_def implicit_type_def plain_env_def)
  then obtain d' where d': "implicit_statements_loop plain_env (length ([?s] @ ImplicitNone # [])) [?s]
      (populate_implicit_dictionary (default_integer_kind plain_env) Map.empty) = Inr d'" ..
  have i: "populate_implicit_dictionary 4 Map.empty ''i'' = Some (Some (Integer_t 4 :: expr ttype))"
    by (simp add: populate_unfolded)
  show ?thesis
    using process_implicit_statements_none
      [of "[ImplicitNone, ?s]" plain_env "[]" False Map.empty "[?s]" "[]" d'] d' i
    by (simp add: plain_env_def)
qed

section \<open>Properties of the verifier\<close>

lemma and_then_ok: "and_then r k = Inr u \<longleftrightarrow> r = Inr () \<and> k = Inr ()"
  by (cases r) (auto simp: and_then_def)

lemma require_ok: "require c msg = Inr u \<longleftrightarrow> c"
  by (simp add: require_def)

lemma require_each_ok: "require_each P msg xs = Inr u \<longleftrightarrow> (\<forall>x\<in>set xs. P x)"
  by (induction xs) (auto simp: and_then_ok require_ok)


lemma verify_unique_dependencies_loop_ok:
  "verify_unique_dependencies_loop ds name S = Inr u \<longleftrightarrow> distinct ds \<and> set ds \<inter> S = {}"
  by (induction ds name S rule: verify_unique_dependencies_loop.induct)
     (auto simp: and_then_ok require_ok)

text \<open>
  Claim C4. The dependency checks of \<^verbatim>\<open>visit_Function\<close> pass exactly when the stored
  list has no duplicate, every name in it resolves from the function's parent table, and
  the list equals, as a set, the list of dependencies the verifier has accumulated on
  its walk of the function; an extra or a missing name is an error.
\<close>

theorem visit_Function_dependencies_iff:
  "visit_Function_dependencies x_parent_symtab name m_dependencies function_dependencies = Inr ()
     \<longleftrightarrow> distinct m_dependencies \<and>
         (\<forall>dep\<in>set m_dependencies. resolve_symbol x_parent_symtab dep \<noteq> None) \<and>
         set m_dependencies = set function_dependencies"
  by (auto simp: visit_Function_dependencies_def verify_unique_dependencies_def and_then_ok
      require_each_ok verify_unique_dependencies_loop_ok present_def)

theorem visit_Function_dependencies_iff_witness:
  "visit_Function_dependencies (SymbolTable 1 [(''f'', 10), (''g'', 11)] None) ''h''
     [''f'', ''g''] [''g'', ''f'', ''g''] = Inr () \<and>
   visit_Function_dependencies (SymbolTable 1 [(''f'', 10), (''g'', 11)] None) ''h''
     [''f'', ''f''] [''f''] \<noteq> Inr () \<and>
   visit_Function_dependencies (SymbolTable 1 [(''f'', 10), (''g'', 11)] None) ''h''
     [''k''] [''k''] \<noteq> Inr () \<and>
   visit_Function_dependencies (SymbolTable 1 [(''f'', 10), (''g'', 11)] None) ''h''
     [''f''] [''f'', ''g''] \<noteq> Inr () \<and>
   visit_Function_dependencies (SymbolTable 1 [(''f'', 10), (''g'', 11)] None) ''h''
     [''f'', ''g''] [''f''] \<noteq> Inr ()"
  using visit_Function_dependencies_iff [of "SymbolTable 1 [(''f'', 10), (''g'', 11)] None" "''h''"
      "[''f'', ''g'']" "[''g'', ''f'', ''g'']"]
    visit_Function_dependencies_iff [of "SymbolTable 1 [(''f'', 10), (''g'', 11)] None" "''h''"
      "[''f'', ''f'']" "[''f'']"]
    visit_Function_dependencies_iff [of "SymbolTable 1 [(''f'', 10), (''g'', 11)] None" "''h''"
      "[''k'']" "[''k'']"]
    visit_Function_dependencies_iff [of "SymbolTable 1 [(''f'', 10), (''g'', 11)] None" "''h''"
      "[''f'']" "[''f'', ''g'']"]
    visit_Function_dependencies_iff [of "SymbolTable 1 [(''f'', 10), (''g'', 11)] None" "''h''"
      "[''f'', ''g'']" "[''f'']"]
  by auto

text \<open>
  Claim C8. A Struct whose alignment is a compile-time integer constant must be rejected
  unless the constant is a positive power of two. The check
  \<^verbatim>\<open>alignment_int != 0 && (alignment_int & (alignment_int - 1)) == 0\<close> does not look
  at the sign: for the least \<^verbatim>\<open>int64_t\<close>, \<open>- 2 ^ 63\<close>, the subtraction wraps around to
  \<open>2 ^ 63 - 1\<close>, the conjunction is zero, and the Struct is accepted although the
  alignment is negative.
\<close>

theorem visit_Struct_accepts_min_int64:
  "visit_Struct (Inr ()) (Some (IntegerConstant_t (- 9223372036854775808) (Integer_t 8))) = Inr () \<and>
   map_option sint (extract_value (IntegerConstant_t (- 9223372036854775808) (Integer_t 8))) =
     Some (- 9223372036854775808)"
  by (simp add: visit_Struct_def and_then_def require_def)









section \<open>Properties of the entry rewrite\<close>

lemma loop_after_entry:
  "entry_functions st = [(sub, [(e, body)])] \<Longrightarrow>
   subroutine_contains_entry_function_loop sub (map Other_stmt ms) True st =
     (True, st\<lparr>entry_functions := [(sub, [(e, body @ map Other_stmt ms)])]\<rparr>)"
proof (induction ms arbitrary: st body)
  case Nil
  then show ?case by simp
next
  case (Cons m ms)
  let ?st = "st\<lparr>entry_functions := [(sub, [(e, body @ [Other_stmt m])])]\<rparr>"
  have "subroutine_contains_entry_function_loop sub (map Other_stmt (m # ms)) True st =
        subroutine_contains_entry_function_loop sub (map Other_stmt ms) True ?st"
    using Cons.prems by (simp add: map_get_def)
  also have "\<dots> =
      (True, ?st\<lparr>entry_functions := [(sub, [(e, (body @ [Other_stmt m]) @ map Other_stmt ms)])]\<rparr>)"
    by (rule Cons.IH) simp
  finally show ?case by simp
qed

lemma to_lower_scenario_names:
  "to_lower ''s'' = ''s''" "to_lower ''e'' = ''e''" "to_lower ''a'' = ''a''"
  "to_lower ''b'' = ''b''" "to_lower ''c'' = ''c''"
  "to_lower ''s_main__lcompilers'' = ''s_main__lcompilers''"
  "to_lower ''entry__lcompilers'' = ''entry__lcompilers''"
  by code_simp+

lemma scenario_name_order:
  "''e'' < ''s''" "\<not> ''s'' < ''e''" "''s'' < ''s_main__lcompilers''"
  "''e'' < ''s_main__lcompilers''" "\<not> ''s_main__lcompilers'' < ''s''"
  "\<not> ''s_main__lcompilers'' < ''e''"
  by code_simp+

text \<open>
  Claim C7. For the subroutine \<open>s(a, b)\<close> whose body contains \<open>ENTRY e(b, c)\<close> among
  statements that are no entries, with \<open>a\<close>, \<open>b\<close> and \<open>c\<close> declared, the resolver adds
  three function symbols to the enclosing scope: \<open>s\<close>, the template \<open>e\<close>, and the
  master \<open>s_main__lcompilers\<close> with the formal arguments \<open>entry__lcompilers, a, b, c\<close>;
  the argument mapping records \<open>[1, 2]\<close> for \<open>s\<close> and \<open>[2, 3]\<close> for \<open>e\<close>.
\<close>

theorem entry_rewrite_scenario:
  "visit_Subroutine False dict [''a'', ''b'', ''c'']
     \<lparr>sub_m_name = ''s'', sub_m_args = [Some ''a'', Some ''b''],
      sub_m_body = map Other_stmt pre @ Entry_t ''e'' [Some ''b'', Some ''c''] # map Other_stmt post\<rparr>
     initial_entry_state =
   Inr \<lparr>entry_functions = [(''s'', [(''e'', map Other_stmt post)])],
        entry_function_args = [],
        entry_function_arguments_mapping = [(''e'', [2, 3]), (''s'', [1, 2])],
        parent_scope =
          [(''e'', Function_symbol ''e'' [''b'', ''c'']),
           (''s'', Function_symbol ''s'' [''a'', ''b'']),
           (''s_main__lcompilers'',
            Function_symbol ''s_main__lcompilers'' [''entry__lcompilers'', ''a'', ''b'', ''c''])]\<rparr>"
proof -
  let ?st0 = "\<lparr>entry_functions = [], entry_function_args = [],
      entry_function_arguments_mapping = [],
      parent_scope = [(''s'', Function_symbol ''s'' [''a'', ''b''])]\<rparr>"
  let ?st1 = "\<lparr>entry_functions = [(''s'', [(''e'', [])])],
      entry_function_args = [(''e'', [Some ''b'', Some ''c''])],
      entry_function_arguments_mapping = [],
      parent_scope = [(''s'', Function_symbol ''s'' [''a'', ''b''])]\<rparr>"
  let ?st2 = "\<lparr>entry_functions = [(''s'', [(''e'', map Other_stmt post)])],
      entry_function_args = [(''e'', [Some ''b'', Some ''c''])],
      entry_function_arguments_mapping = [],
      parent_scope = [(''s'', Function_symbol ''s'' [''a'', ''b''])]\<rparr>"
  have split: "subroutine_contains_entry_function_loop ''s''
      (map Other_stmt pre @ Entry_t ''e'' [Some ''b'', Some ''c''] # map Other_stmt post) False ?st0 =
     subroutine_contains_entry_function_loop ''s'' (map Other_stmt post) True ?st1"
    by (induction pre) (simp_all add: to_lower_scenario_names map_get_def Let_def)
  have after: "subroutine_contains_entry_function_loop ''s'' (map Other_stmt post) True ?st1 =
      (True, ?st1\<lparr>entry_functions := [(''s'', [(''e'', [] @ map Other_stmt post)])]\<rparr>)"
    by (rule loop_after_entry) simp
  have loop: "subroutine_contains_entry_function_loop ''s''
      (map Other_stmt pre @ Entry_t ''e'' [Some ''b'', Some ''c''] # map Other_stmt post) False ?st0 =
     (True, ?st2)"
    unfolding split after by simp
  show ?thesis
    by (auto simp: visit_Subroutine_def Let_def to_lower_scenario_names add_symbol_def
        subroutine_contains_entry_function_def loop
        create_template_entry_function_def perform_argument_mapping_def map_get_def arg_name_def
        scenario_name_order initial_entry_state_def)
qed

text \<open>
  The union of the formal arguments is a \<^verbatim>\<open>std::set\<close>, so the master lists them in
  lexicographic order and not in the order of their first occurrence: for
  \<open>S(y, x)\<close> with \<open>ENTRY E(x, w)\<close> the master's formal arguments are
  \<open>entry__lcompilers, w, x, y\<close> and the mapping is \<open>[3, 2]\<close> for \<open>s\<close>, \<open>[2, 1]\<close> for
  \<open>e\<close>. Names are stored in lowercase.
\<close>

theorem entry_rewrite_sorted_union:
  "visit_Subroutine False Map.empty [''y'', ''x'', ''w'']
     \<lparr>sub_m_name = ''S'', sub_m_args = [Some ''y'', Some ''x''],
      sub_m_body = [Other_stmt 1, Entry_t ''E'' [Some ''x'', Some ''w''], Other_stmt 2]\<rparr>
     initial_entry_state =
   Inr \<lparr>entry_functions = [(''s'', [(''e'', [Other_stmt 2])])],
        entry_function_args = [],
        entry_function_arguments_mapping = [(''e'', [2, 1]), (''s'', [3, 2])],
        parent_scope =
          [(''e'', Function_symbol ''e'' [''x'', ''w'']),
           (''s'', Function_symbol ''s'' [''y'', ''x'']),
           (''s_main__lcompilers'',
            Function_symbol ''s_main__lcompilers'' [''entry__lcompilers'', ''w'', ''x'', ''y''])]\<rparr>"
  by code_simp

section \<open>Properties of use\<close>

text \<open>
  Claim C2. When an aggregate is imported into a scope that binds an aggregate of the
  same name, the constituents of the result must be the union of the two lists without
  duplicates, and importing twice must add nothing twice. The loop that merges into an
  aggregate of the scope's own ends in a second \<^verbatim>\<open>push_back\<close> that no test guards:
  after \<open>use a, only: pa1, plus\<close> the generic \<open>plus\<close> has the one constituent \<open>pa1\<close>,
  and importing \<open>plus\<close> once more lists that constituent twice.
\<close>

theorem import_generic_twice_duplicates:
  "map_sum id (bound_procs ''plus'')
     (import_symbols 3 module_a ''a'' [(''pa1'', ''pa1''), (''plus'', ''plus'')] use_example_state) =
     Inr (Some [300]) \<and>
   map_sum id (bound_procs ''plus'')
     (import_symbols 3 module_a ''a'' [(''pa1'', ''pa1''), (''plus'', ''plus''), (''plus'', ''plus'')]
        use_example_state) =
     Inr (Some [300, 300])"
  by code_simp

lemma map_of_map_set_same: "map_of (map_set k v m) k = Some v"
  by (induction m) auto

lemma map_of_erase: "map_of (filter (\<lambda>binding. fst binding \<noteq> k) m) k = None"
  by (induction m) auto

lemmas use_state_ops =
  make_ExternalSymbol_t_def make_symbol_def warn_and_erase_def scope_add_symbol_def
  add_warning_def erase_symbol_def scope_update_def get_symbol_def map_of_erase
  add_or_overwrite_symbol_def map_of_map_set_same





lemma import_procs_distinct:
  "import_procs fuel mangle False procs gp st = Inr (res, st') \<Longrightarrow> distinct gp \<Longrightarrow>
     distinct res \<and> set gp \<subseteq> set res"
proof (induction procs arbitrary: gp st)
  case Nil
  then show ?case by simp
next
  case (Cons proc procs)
  from Cons.prems(1) obtain m_proc st1 where
    step: "import_procs fuel mangle False procs
             (if present gp m_proc then gp else gp @ [m_proc]) st1 = Inr (res, st')"
    by (auto split: sum.splits option.splits prod.splits nat.splits)
  have "distinct (if present gp m_proc then gp else gp @ [m_proc])"
    using Cons.prems(2) by (simp add: present_def)
  from Cons.IH [OF step this] show ?case
    by (auto split: if_splits)
qed

text \<open>
  The other merging branch of \<^verbatim>\<open>process_generic_proc_custom_op\<close> guards every
  \<^verbatim>\<open>push_back\<close>: when the local name is bound to an ExternalSymbol, the aggregate
  that the import leaves under the name has no constituent twice.
\<close>

theorem process_generic_external_distinct:
  assumes "get_symbol (current_scope st) local_sym = Some gp_sym"
    and "is_ExternalSymbol_t (asr_nodes st gp_sym)"
    and "process_generic_proc_custom_op fuel T local_sym t m st = Inr st'"
  shows "\<exists>procs. bound_procs local_sym st' = Some procs \<and> distinct procs"
  using assms
  by (auto simp: bound_procs_def constructor_def use_state_ops
      split: option.splits sum.splits prod.splits aggregate_kind.splits
      dest!: import_procs_distinct)

theorem process_generic_external_distinct_witness:
  "map_sum id (bound_procs ''plus'')
     (process_generic_proc_custom_op 3 GenericProcedure ''plus'' 102 module_a use_example_external) =
     Inr (Some [300]) \<and>
   (\<exists>procs. map_sum id (bound_procs ''plus'')
        (process_generic_proc_custom_op 3 GenericProcedure ''plus'' 102 module_a
           use_example_external) = Inr (Some procs) \<and> distinct procs)"
proof -
  have bound: "get_symbol (current_scope use_example_external) ''plus'' = Some 202"
    by code_simp
  have ext: "is_ExternalSymbol_t (asr_nodes use_example_external 202)"
    by (simp add: use_example_external_def is_ExternalSymbol_t_def)
  have run: "map_sum id (bound_procs ''plus'')
     (process_generic_proc_custom_op 3 GenericProcedure ''plus'' 102 module_a use_example_external) =
     Inr (Some [300])"
    by code_simp
  then obtain st' where
    st': "process_generic_proc_custom_op 3 GenericProcedure ''plus'' 102 module_a
            use_example_external = Inr st'"
    by (cases "process_generic_proc_custom_op 3 GenericProcedure ''plus'' 102 module_a
            use_example_external") auto
  from process_generic_external_distinct [OF bound ext st'] run st' show ?thesis
    by simp
qed

section \<open>Properties of the resolver's output under the verifier\<close>

text \<open>
  Claim C1. Every translation unit the resolver produces must pass the verifier in
  post-link mode. For a function declared as \<open>character function f()\<close>, with no length
  and no declaration of \<open>f\<close> in its body, the resolver builds the return variable \<open>f\<close>
  with the string length \<open>- 10\<close>, the initial value of \<^verbatim>\<open>a_len\<close> that only a length
  item replaces. The verifier's \<^verbatim>\<open>visit_Variable\<close> rejects that variable, whatever
  its other checks find, because \<^verbatim>\<open>visit_String\<close> requires a constant length to be
  at least zero; when the other checks pass, the error is "String length must be
  length >= 0".
\<close>

theorem character_function_return_var_rejected:
  "visit_Function_return_var implicit_typing implicit_interface fenv dict owner
     [AttrType_t (AttrType TypeCharacter [])] ''f'' None =
     Inr (Variable_t ''f'' owner
            (String_t 1 (Some (IntegerConstant_t (- 10) (Integer_t 4))) ExpressionLength
               DescriptorString) ReturnVar Default Public) \<and>
   visit_Variable (env\<lparr>constant_length := is_value_constant\<rparr>) symtab_checks x_m_abi_BindC
     values dependencies
     (Variable_t ''f'' owner
        (String_t 1 (Some (IntegerConstant_t (- 10) (Integer_t 4))) ExpressionLength
           DescriptorString) ReturnVar Default Public) \<noteq> Inr () \<and>
   visit_Variable (plain_verify_env\<lparr>constant_length := is_value_constant\<rparr>) (Inr ()) False
     (Inr ()) (Inr ())
     (Variable_t ''f'' owner
        (String_t 1 (Some (IntegerConstant_t (- 10) (Integer_t 4))) ExpressionLength
           DescriptorString) ReturnVar Default Public) =
     Inl (VerifyAbort ''String length must be length >= 0'')"
proof (intro conjI)
  show "visit_Function_return_var implicit_typing implicit_interface fenv dict owner
     [AttrType_t (AttrType TypeCharacter [])] ''f'' None =
     Inr (Variable_t ''f'' owner
            (String_t 1 (Some (IntegerConstant_t (- 10) (Integer_t 4))) ExpressionLength
               DescriptorString) ReturnVar Default Public)"
    by (simp add: visit_Function_return_var_def find_return_type_def return_var_type_def
        return_type_kinds_def)
next
  show "visit_Variable (env\<lparr>constant_length := is_value_constant\<rparr>) symtab_checks x_m_abi_BindC
     values dependencies
     (Variable_t ''f'' owner
        (String_t 1 (Some (IntegerConstant_t (- 10) (Integer_t 4))) ExpressionLength
           DescriptorString) ReturnVar Default Public) \<noteq> Inr ()"
    by (simp add: visit_Variable_def and_then_ok visit_String_def require_ok)
next
  show "visit_Variable (plain_verify_env\<lparr>constant_length := is_value_constant\<rparr>) (Inr ()) False
     (Inr ()) (Inr ())
     (Variable_t ''f'' owner
        (String_t 1 (Some (IntegerConstant_t (- 10) (Integer_t 4))) ExpressionLength
           DescriptorString) ReturnVar Default Public) =
     Inl (VerifyAbort ''String length must be length >= 0'')"
    by (simp add: visit_Variable_def and_then_def visit_String_def require_def
        plain_verify_env_def is_character_def visit_Variable_character_def
        extract_type_ttype_def)
qed

text \<open>
  The same length reaches the implicit dictionary and the implicit return type. An
  \<open>implicit character (c)\<close> without a length binds \<open>c\<close> to a string type of length
  \<open>- 10\<close>, which \<^verbatim>\<open>visit_ttype\<close> rejects; and a function \<open>f\<close> without a type
  attribute, whose first letter the dictionary binds to a string type of length 5, gets
  a return variable of length \<open>- 10\<close>, because the type attribute that
  \<^verbatim>\<open>find_return_type\<close> makes for an implicit type has no length item.
\<close>

theorem implicit_character_length:
  "map_sum id (\<lambda>d. d ''c'')
     (process_implicit_statements plain_env [] False
        [Implicit [ImplicitSpec (AttrType TypeCharacter []) [LetterSpec None CHR ''c'']]]
        Map.empty) =
     Inr (Some (Some (String_t 1 (Some (IntegerConstant_t (- 10) (Integer_t 4))) ExpressionLength
                        DescriptorString))) \<and>
   visit_ttype (env\<lparr>constant_length := is_value_constant\<rparr>)
     (String_t 1 (Some (IntegerConstant_t (- 10) (Integer_t 4))) ExpressionLength
        DescriptorString) \<noteq> Inr () \<and>
   visit_Function_return_var True implicit_interface fenv
     (dict(''f'' \<mapsto> Some (String_t 1 (Some (IntegerConstant_t 5 (Integer_t 4))) ExpressionLength
                           DescriptorString)))
     owner [] ''f'' None =
     Inr (Variable_t ''f'' owner
            (String_t 1 (Some (IntegerConstant_t (- 10) (Integer_t 4))) ExpressionLength
               DescriptorString) ReturnVar Default Public)"
proof (intro conjI)
  have lower: "to_lower ''c'' = ''c''" "to_lower ''f'' = ''f''"
    by code_simp+
  show "map_sum id (\<lambda>d. d ''c'')
     (process_implicit_statements plain_env [] False
        [Implicit [ImplicitSpec (AttrType TypeCharacter []) [LetterSpec None CHR ''c'']]]
        Map.empty) =
     Inr (Some (Some (String_t 1 (Some (IntegerConstant_t (- 10) (Integer_t 4))) ExpressionLength
                        DescriptorString)))"
    by (simp add: process_implicit_statements_def process_implicit_spec_def implicit_kinds_def
        implicit_type_def apply_letter_spec_def plain_env_def lower)
  show "visit_ttype (env\<lparr>constant_length := is_value_constant\<rparr>)
     (String_t 1 (Some (IntegerConstant_t (- 10) (Integer_t 4))) ExpressionLength
        DescriptorString) \<noteq> Inr ()"
    by (simp add: and_then_ok visit_String_def require_ok)
  show "visit_Function_return_var True implicit_interface fenv
     (dict(''f'' \<mapsto> Some (String_t 1 (Some (IntegerConstant_t 5 (Integer_t 4))) ExpressionLength
                           DescriptorString)))
     owner [] ''f'' None =
     Inr (Variable_t ''f'' owner
            (String_t 1 (Some (IntegerConstant_t (- 10) (Integer_t 4))) ExpressionLength
               DescriptorString) ReturnVar Default Public)"
    by (simp add: visit_Function_return_var_def find_return_type_def implicit_return_type_def
        return_var_type_def return_type_kinds_def lower)
qed

end
